theory Spec2Isabelle
  imports Complex_Main "HOL-Library.Sublist"
begin

section \<open>Values of the host language\<close>

text \<open>
  A JavaScript string is modelled as a \<open>string\<close>: the list of its code units, for
  code units below 256. \<open>String.prototype.includes\<close> is true when the search string
  occurs as a contiguous run of the subject; the empty search string occurs everywhere.
\<close>

fun js_includes :: "string \<Rightarrow> string \<Rightarrow> bool" where
  "js_includes [] pat = (pat = [])"
| "js_includes (c # cs) pat = (prefix pat (c # cs) \<or> js_includes cs pat)"

text \<open>
  \<open>String.prototype.trim\<close> removes white space at both ends: TAB, LF, VT, FF, CR,
  SPACE and NO-BREAK SPACE are the white-space code units below 256.
\<close>

definition js_whitespace :: "char \<Rightarrow> bool" where
  "js_whitespace c = (of_char c \<in> {9, 10, 11, 12, 13, 32, 160 :: nat})"

definition js_trim :: "string \<Rightarrow> string" where
  "js_trim s = rev (dropWhile js_whitespace (rev (dropWhile js_whitespace s)))"

text \<open>Decimal rendering of a non-negative integer, as a template literal prints it.\<close>

fun js_string_of_nat :: "nat \<Rightarrow> string" where
  "js_string_of_nat n =
     (if n < 10 then [char_of (48 + n)]
      else js_string_of_nat (n div 10) @ [char_of (48 + n mod 10)])"

declare js_string_of_nat.simps [simp del]

text \<open>
  Numbers are IEEE doubles in the source. The model keeps what the code looks at:
  whether a number is \<open>NaN\<close>, infinite, or a finite value (a rational).
\<close>

datatype jsnum = Finite rat | PosInf | NegInf | NaN

datatype jsval =
    JUndefined
  | JNull
  | JBool bool
  | JNum jsnum
  | JStr string
  | JArr "jsval list"
  | JObj "(string \<times> jsval) list"

datatype js_error =
    Error string
  | TypeError string
  | ReferenceError string

text \<open>The host functions the program calls and the model does not define.\<close>

record host =
  JSON_parse :: "string \<Rightarrow> jsval option"
  parseFloat :: "jsval \<Rightarrow> jsnum"

text \<open>\<open>ToBoolean\<close>: what \<open>!v\<close>, \<open>v && w\<close>, \<open>v || w\<close> and \<open>if (v)\<close> test.\<close>

fun truthy :: "jsval \<Rightarrow> bool" where
  "truthy JUndefined = False"
| "truthy JNull = False"
| "truthy (JBool b) = b"
| "truthy (JNum (Finite r)) = (r \<noteq> 0)"
| "truthy (JNum NaN) = False"
| "truthy (JNum PosInf) = True"
| "truthy (JNum NegInf) = True"
| "truthy (JStr s) = (s \<noteq> [])"
| "truthy (JArr xs) = True"
| "truthy (JObj kvs) = True"

definition js_or :: "jsval \<Rightarrow> jsval \<Rightarrow> jsval" where
  "js_or a b = (if truthy a then a else b)"

fun isArray :: "jsval \<Rightarrow> bool" where
  "isArray (JArr xs) = True"
| "isArray v = False"

fun nullish :: "jsval \<Rightarrow> bool" where
  "nullish JUndefined = True"
| "nullish JNull = True"
| "nullish v = False"

text \<open>
  Reading a property \<open>v.k\<close> of a value that is neither \<open>null\<close> nor \<open>undefined\<close>, for
  the property names the normalizer reads (none of them is a built-in property of
  arrays, strings, numbers or booleans): an object gives the value stored under the
  key, or \<open>undefined\<close>; every other value gives \<open>undefined\<close>.
\<close>

fun js_get :: "jsval \<Rightarrow> string \<Rightarrow> jsval" where
  "js_get (JObj kvs) k = (case map_of kvs k of None \<Rightarrow> JUndefined | Some v \<Rightarrow> v)"
| "js_get v k = JUndefined"

text \<open>
  Reading a property of a value that may be \<open>null\<close> or \<open>undefined\<close>: these two raise a
  \<open>TypeError\<close> (the message is V8's).
\<close>

definition read_prop :: "jsval \<Rightarrow> string \<Rightarrow> js_error + jsval" where
  "read_prop v k =
     (if v = JUndefined then
        Inl (TypeError (''Cannot read properties of undefined (reading '' @ [CHR 0x27] @ k @ [CHR 0x27] @ '')''))
      else if v = JNull then
        Inl (TypeError (''Cannot read properties of null (reading '' @ [CHR 0x27] @ k @ [CHR 0x27] @ '')''))
      else Inr (js_get v k))"

text \<open>
  \<open>Array.prototype.map\<close> with a callback that may raise: elements are visited from
  left to right and the first exception ends the call.
\<close>

fun js_map :: "('a \<Rightarrow> js_error + 'b) \<Rightarrow> 'a list \<Rightarrow> js_error + 'b list" where
  "js_map f [] = Inr []"
| "js_map f (x # xs) =
     (case f x of
        Inl e \<Rightarrow> Inl e
      | Inr y \<Rightarrow> (case js_map f xs of Inl e \<Rightarrow> Inl e | Inr ys \<Rightarrow> Inr (y # ys)))"

text \<open>
  The method call \<open>v.map(f)\<close> on a truthy value: only an array has a callable \<open>map\<close>;
  \<open>what\<close> is the source text of the receiver, for the message.
\<close>

fun call_map :: "string \<Rightarrow> jsval \<Rightarrow> (jsval \<Rightarrow> js_error + 'b) \<Rightarrow> js_error + 'b list" where
  "call_map what (JArr xs) f = js_map f xs"
| "call_map what v f = Inl (TypeError (what @ ''.map is not a function''))"

section \<open>The result normalizer\<close>

text \<open>The objects \<open>extractFlightInfo\<close> builds, one record for each object literal.\<close>

record fare =
  fare_type :: jsval
  fare_description :: jsval
  fare_fareFamily :: jsval
  fare_isRefundable :: jsval
  fare_cabinClass :: jsval
  fare_fareContent :: jsval
  fare_marketingText :: jsval

record airport_price =
  price_airport :: jsval
  price_description :: jsval
  price_price :: jsnum
  price_currency :: jsval
  price_fareFamily :: jsval

record equipment =
  equipment_code :: jsval
  equipment_description :: jsval

record search_filters =
  priceRange_min :: jsval
  priceRange_max :: jsval
  priceRange_currency :: jsval
  duration_min :: jsval
  duration_max :: jsval
  stops_min :: jsval
  stops_max :: jsval
  carriers_marketing :: jsval
  carriers_operating :: jsval

text \<open>\<open>searchFilters\<close> starts as the empty object \<open>{}\<close>, modelled as \<open>None\<close>.\<close>

record flightInfo =
  tripIndex :: jsval
  origin :: jsval
  destination :: jsval
  originDecoded :: jsval
  destinationDecoded :: jsval
  departDate :: jsval
  departTime :: jsval
  fares :: "fare list"
  pricing :: "airport_price list"
  aircraft :: "equipment list"
  searchFilters :: "search_filters option"

record searchInfo =
  sessionId :: jsval
  lastCallDateTime :: jsval
  warnings :: jsval
  errors :: jsval
  marketingCarriers :: jsval
  operatingCarriers :: jsval
  search_status :: jsval
  search_version :: jsval

text \<open>
  The \<open>metadata\<close> object of \<open>parseInterceptedData\<close>; a key that an object literal does
  not set is \<open>None\<close>.
\<close>

record metadata =
  interceptedResponses :: nat
  responseTimestamp :: "string option"
  responseSize :: "nat option"
  apiUrl :: "string option"
  parseTimestamp :: "string option"
  meta_timestamp :: "string option"

text \<open>The \<open>error\<close> key of a result: the three messages the source writes.\<close>

datatype result_error =
    NoDataIntercepted
  | InvalidResponseData
  | FailedToParse string

record result =
  flights :: "flightInfo list"
  res_error :: "result_error option"
  res_searchInfo :: "searchInfo option"
  res_rawData :: "jsval option"
  res_metadata :: "metadata option"

text \<open>
  The callback of \<open>Columns.map\<close>. Reading \<open>column.Type\<close> raises when the element is
  \<open>null\<close>; \<open>column.DataSourceLabel?.trim()\<close> is \<open>undefined\<close> for a missing label, the
  trimmed text for a string, and raises for any other value, which has no callable
  \<open>trim\<close>.
\<close>

definition optional_trim :: "jsval \<Rightarrow> js_error + jsval" where
  "optional_trim v =
     (if nullish v then Inr JUndefined
      else case v of
             JStr s \<Rightarrow> Inr (JStr (js_trim s))
           | _ \<Rightarrow> Inl (TypeError ''column.DataSourceLabel?.trim is not a function''))"

definition fare_of_column :: "jsval \<Rightarrow> js_error + fare" where
  "fare_of_column column =
     (case read_prop column ''Type'' of
        Inl e \<Rightarrow> Inl e
      | Inr ty \<Rightarrow>
          (case optional_trim (js_get column ''DataSourceLabel'') of
             Inl e \<Rightarrow> Inl e
           | Inr label \<Rightarrow>
               Inr \<lparr> fare_type = ty,
                     fare_description = js_get column ''Description'',
                     fare_fareFamily = js_get column ''FareFamily'',
                     fare_isRefundable = js_or (js_get column ''IsFullyRefundable'') (JBool False),
                     fare_cabinClass = label,
                     fare_fareContent = js_get column ''FareContentDescription'',
                     fare_marketingText = js_get column ''MarketingText'' \<rparr>))"

definition price_of_dest :: "host \<Rightarrow> jsval \<Rightarrow> js_error + airport_price" where
  "price_of_dest h dest =
     (case read_prop dest ''Code'' of
        Inl e \<Rightarrow> Inl e
      | Inr code \<Rightarrow>
          Inr \<lparr> price_airport = code,
                price_description = js_get dest ''Description'',
                price_price =
                  (let amount = parseFloat h (js_get dest ''Amount'')
                   in if truthy (JNum amount) then amount else Finite 0),
                price_currency = js_get dest ''Currency'',
                price_fareFamily = js_get dest ''FareFamily'' \<rparr>)"

definition equipment_of :: "jsval \<Rightarrow> js_error + equipment" where
  "equipment_of eq =
     (case read_prop eq ''Code'' of
        Inl e \<Rightarrow> Inl e
      | Inr code \<Rightarrow>
          Inr \<lparr> equipment_code = code, equipment_description = js_get eq ''Description'' \<rparr>)"

definition filters_of :: "jsval \<Rightarrow> search_filters" where
  "filters_of out =
     \<lparr> priceRange_min = js_get out ''PriceMin'',
       priceRange_max = js_get out ''PriceMax'',
       priceRange_currency = js_get out ''PriceMinCurrency'',
       duration_min = js_get out ''DurationMin'',
       duration_max = js_get out ''DurationMax'',
       stops_min = js_get out ''StopCountMin'',
       stops_max = js_get out ''StopCountMax'',
       carriers_marketing = js_get out ''CarriersMarketing'',
       carriers_operating = js_get out ''CarriersOperating'' \<rparr>"

text \<open>
  The body of the loop over the trips, for a truthy \<open>trip\<close>: the four optional
  substructures in the source's order. A guard \<open>a && a.b\<close> reads \<open>a.b\<close> only when \<open>a\<close>
  is truthy, so the guards themselves never raise.
\<close>

definition trip_fares :: "jsval \<Rightarrow> js_error + fare list" where
  "trip_fares trip =
     (let ci = js_get trip ''ColumnInformation'' in
      if truthy ci \<and> truthy (js_get ci ''Columns'')
      then call_map ''trip.ColumnInformation.Columns'' (js_get ci ''Columns'') fare_of_column
      else Inr [])"

definition trip_pricing :: "host \<Rightarrow> jsval \<Rightarrow> js_error + airport_price list" where
  "trip_pricing h trip =
     (let out = js_get trip ''SearchFiltersOut'' in
      if truthy out \<and> truthy (js_get out ''AirportsDestinationList'')
      then call_map ''trip.SearchFiltersOut.AirportsDestinationList''
             (js_get out ''AirportsDestinationList'') (price_of_dest h)
      else Inr [])"

definition trip_aircraft :: "jsval \<Rightarrow> js_error + equipment list" where
  "trip_aircraft trip =
     (let out = js_get trip ''SearchFiltersOut'' in
      if truthy out \<and> truthy (js_get out ''EquipmentList'')
      then call_map ''trip.SearchFiltersOut.EquipmentList'' (js_get out ''EquipmentList'') equipment_of
      else Inr [])"

definition flight_of_trip :: "host \<Rightarrow> jsval \<Rightarrow> js_error + flightInfo" where
  "flight_of_trip h trip =
     (case trip_fares trip of
        Inl e \<Rightarrow> Inl e
      | Inr fs \<Rightarrow>
          (case trip_pricing h trip of
             Inl e \<Rightarrow> Inl e
           | Inr ps \<Rightarrow>
               (case trip_aircraft trip of
                  Inl e \<Rightarrow> Inl e
                | Inr eqs \<Rightarrow>
                    Inr \<lparr> tripIndex = js_or (js_get trip ''TripIndex'') (js_get trip ''Index''),
                          origin = js_get trip ''Origin'',
                          destination = js_get trip ''Destination'',
                          originDecoded = js_get trip ''OriginDecoded'',
                          destinationDecoded = js_get trip ''DestinationDecoded'',
                          departDate = js_get trip ''DepartDate'',
                          departTime = js_get trip ''DepartTime'',
                          fares = fs,
                          pricing = ps,
                          aircraft = eqs,
                          searchFilters =
                            (if truthy (js_get trip ''SearchFiltersOut'')
                             then Some (filters_of (js_get trip ''SearchFiltersOut''))
                             else None) \<rparr>)))"

text \<open>
  The \<open>for (const trip of trips)\<close> loop with the \<open>flights\<close> array as accumulator: a
  falsy entry is skipped, and an exception leaves the loop with the flights pushed so
  far (the \<open>catch\<close> block returns that same array).
\<close>

fun trips_loop :: "host \<Rightarrow> jsval list \<Rightarrow> flightInfo list \<Rightarrow> js_error option \<times> flightInfo list" where
  "trips_loop h [] acc = (None, acc)"
| "trips_loop h (trip # rest) acc =
     (if \<not> truthy trip then trips_loop h rest acc
      else case flight_of_trip h trip of
             Inl e \<Rightarrow> (Some e, acc)
           | Inr info \<Rightarrow> trips_loop h rest (acc @ [info]))"

text \<open>
  Where the trip list is looked for, in the source's order: a top-level \<open>Trips\<close> that
  is an array, then a truthy \<open>data.Trips\<close> (not tested for being an array), then the
  payload itself when it is an array; otherwise the initial empty array.
\<close>

definition locate_trips :: "jsval \<Rightarrow> jsval" where
  "locate_trips data =
     (if truthy (js_get data ''Trips'') \<and> isArray (js_get data ''Trips'') then js_get data ''Trips''
      else if truthy (js_get data ''data'') \<and> truthy (js_get (js_get data ''data'') ''Trips'')
      then js_get (js_get data ''data'') ''Trips''
      else if isArray data then data
      else JArr [])"

text \<open>
  What \<open>for ... of\<close> iterates: the elements of an array, the characters of a string
  (each a one-character string); any other truthy value is not iterable.
\<close>

fun iterate :: "jsval \<Rightarrow> js_error + jsval list" where
  "iterate (JArr xs) = Inr xs"
| "iterate (JStr s) = Inr (map (\<lambda>c. JStr [c]) s)"
| "iterate v = Inl (TypeError ''trips is not iterable'')"

definition searchInfo_of :: "jsval \<Rightarrow> searchInfo" where
  "searchInfo_of data =
     \<lparr> sessionId = js_get data ''SessionId'',
       lastCallDateTime = js_get data ''LastCallDateTime'',
       warnings = js_or (js_get data ''Warnings'') (JArr []),
       errors = js_or (js_get data ''Errors'') (JArr []),
       marketingCarriers = js_get data ''MarketingCarriers'',
       operatingCarriers = js_get data ''OperatingCarriers'',
       search_status = js_get data ''Status'',
       search_version = js_get data ''Version'' \<rparr>"

fun error_message :: "js_error \<Rightarrow> string" where
  "error_message (Error m) = m"
| "error_message (TypeError m) = m"
| "error_message (ReferenceError m) = m"

text \<open>\<open>typeof data === "object"\<close> for a truthy value: objects and arrays.\<close>

fun is_object :: "jsval \<Rightarrow> bool" where
  "is_object (JObj kvs) = True"
| "is_object (JArr xs) = True"
| "is_object v = False"

definition extractFlightInfo :: "host \<Rightarrow> jsval \<Rightarrow> result" where
  "extractFlightInfo h data =
     (if \<not> truthy data \<or> \<not> is_object data then
        \<lparr> flights = [], res_error = Some InvalidResponseData, res_searchInfo = None,
          res_rawData = Some data, res_metadata = None \<rparr>
      else
        (case (case iterate (locate_trips data) of
                 Inl e \<Rightarrow> (Some e, [])
               | Inr trips \<Rightarrow> trips_loop h trips []) of
           (None, fl) \<Rightarrow>
             \<lparr> flights = fl, res_error = None, res_searchInfo = Some (searchInfo_of data),
               res_rawData = Some data, res_metadata = None \<rparr>
         | (Some e, fl) \<Rightarrow>
             \<lparr> flights = fl,
               res_error = Some (FailedToParse (''Failed to parse flight data: '' @ error_message e)),
               res_searchInfo = None, res_rawData = Some data, res_metadata = None \<rparr>))"

section \<open>The engine and its session lists\<close>

record capture =
  item_url :: string
  item_timestamp :: string
  item_status :: nat
  item_headers :: "(string \<times> string) list"
  item_data :: jsval
  item_size :: nat

record failed_request =
  failed_url :: string
  failed_error :: string
  failed_timestamp :: string

text \<open>
  The fields of a \<open>UnitedFlightSearcher\<close>. The constructor does not set
  \<open>failedRequests\<close>: it is \<open>undefined\<close> (\<open>None\<close>) until \<open>setupInterception\<close> runs.
\<close>

record searcher =
  headless :: bool
  timeout :: nat
  interceptedData :: "capture list"
  saveResponses :: bool
  outputDir :: string
  failedRequests :: "failed_request list option"

record options =
  logRequests :: bool
  filename :: "string option"

text \<open>
  \<open>parseInterceptedData\<close>. \<open>reduce\<close> without an initial value starts from the first
  element and folds the others from left to right; \<open>now\<close> is what
  \<open>new Date().toISOString()\<close> returns.
\<close>

definition larger :: "capture \<Rightarrow> capture \<Rightarrow> capture" where
  "larger prev current = (if item_size current > item_size prev then current else prev)"

definition parseInterceptedData :: "host \<Rightarrow> string \<Rightarrow> searcher \<Rightarrow> options \<Rightarrow> result" where
  "parseInterceptedData h now s opts =
     (case interceptedData s of
        [] \<Rightarrow>
          \<lparr> flights = [], res_error = Some NoDataIntercepted, res_searchInfo = None,
            res_rawData = None,
            res_metadata = Some \<lparr> interceptedResponses = 0, responseTimestamp = None,
                                  responseSize = None, apiUrl = None, parseTimestamp = None,
                                  meta_timestamp = Some now \<rparr> \<rparr>
      | first # others \<Rightarrow>
          (let latestData = foldl larger first others
           in (extractFlightInfo h (item_data latestData))
                \<lparr> res_metadata :=
                    Some \<lparr> interceptedResponses = length (interceptedData s),
                           responseTimestamp = Some (item_timestamp latestData),
                           responseSize = Some (item_size latestData),
                           apiUrl = Some (item_url latestData),
                           parseTimestamp = Some now,
                           meta_timestamp = None \<rparr> \<rparr>))"

text \<open>\<open>clearData\<close> assigns a new empty array to \<open>interceptedData\<close> and nothing else.\<close>

definition clearData :: "searcher \<Rightarrow> searcher" where
  "clearData s = s\<lparr>interceptedData := []\<rparr>"

section \<open>The interception pipeline\<close>

definition isFetchFlightsAPI :: "string \<Rightarrow> bool" where
  "isFetchFlightsAPI url =
     (js_includes url ''/api/flight/FetchFlights''
      \<or> js_includes url ''FetchFlights''
      \<or> (js_includes url ''united.com'' \<and> js_includes url ''/api/flight/''))"

type_synonym headers = "(string \<times> string) list"

text \<open>
  \<open>setupInterception\<close> creates a fresh \<open>failedRequests\<close> array, installs the three
  page observers and stores that array in the engine; the observers append to it.
  A session is the engine together with the response handlers that are suspended at
  \<open>await response.text()\<close>, each holding the URL, status and headers of its response.
\<close>

definition setupInterception :: "searcher \<Rightarrow> options \<Rightarrow> searcher" where
  "setupInterception s opts = s\<lparr>failedRequests := Some []\<rparr>"

record session =
  engine :: searcher
  awaiting :: "(nat \<times> string \<times> nat \<times> headers) list"

text \<open>
  What the page reports to the observers: an outbound request, a failed request (with
  the failure's \<open>errorText\<close> when there is one), a response (identified by a number),
  and the settling of the body read of a response, with the body text or the
  rejection. The last string of an event is the clock reading \<open>new Date().toISOString()\<close>
  the handler takes.
\<close>

datatype event =
    RequestEvent string
  | RequestFailedEvent string "string option" string
  | ResponseEvent nat string nat headers
  | TextSettled nat "js_error + string" string

text \<open>\<open>failure?.errorText || "Unknown error"\<close>.\<close>

definition failure_text :: "string option \<Rightarrow> string" where
  "failure_text t = (case t of None \<Rightarrow> ''Unknown error'' | Some e \<Rightarrow> if e = [] then ''Unknown error'' else e)"

definition on_requestfailed :: "session \<Rightarrow> string \<Rightarrow> string option \<Rightarrow> string \<Rightarrow> session" where
  "on_requestfailed s url failure now =
     (if js_includes url ''/api/'' \<or> js_includes url ''FetchFlights'' then
        s\<lparr>engine := (engine s)\<lparr>failedRequests :=
             Some ((case failedRequests (engine s) of None \<Rightarrow> [] | Some reqs \<Rightarrow> reqs)
                   @ [\<lparr>failed_url = url, failed_error = failure_text failure, failed_timestamp = now\<rparr>])\<rparr>\<rparr>
      else s)"

text \<open>
  The response handler up to its first suspension: a qualifying response with status
  200 starts reading its body; any other response ends the handler.
\<close>

definition on_response :: "session \<Rightarrow> nat \<Rightarrow> string \<Rightarrow> nat \<Rightarrow> headers \<Rightarrow> session" where
  "on_response s rid url status hs =
     (if isFetchFlightsAPI url then
        (if status \<noteq> 200 then s
         else s\<lparr>awaiting := awaiting s @ [(rid, url, status, hs)]\<rparr>)
      else s)"

text \<open>
  The handler resumed: a rejected read, an empty or blank body and a body that
  \<open>JSON.parse\<close> rejects are logged and leave the lists alone; a parsed body is pushed
  on the list \<open>this.interceptedData\<close> names at that moment. Writing the capture to
  a file (\<open>saveResponses\<close>) touches the file system only and its failures are caught,
  so it is left out.
\<close>

definition on_text_settled :: "host \<Rightarrow> session \<Rightarrow> nat \<Rightarrow> js_error + string \<Rightarrow> string \<Rightarrow> session" where
  "on_text_settled h s rid outcome now =
     (case map_of (awaiting s) rid of
        None \<Rightarrow> s
      | Some (url, status, hs) \<Rightarrow>
          (let s' = s\<lparr>awaiting := filter (\<lambda>p. fst p \<noteq> rid) (awaiting s)\<rparr> in
           case outcome of
             Inl e \<Rightarrow> s'
           | Inr responseBody \<Rightarrow>
               if responseBody = [] \<or> js_trim responseBody = [] then s'
               else (case JSON_parse h responseBody of
                       None \<Rightarrow> s'
                     | Some data \<Rightarrow>
                         s'\<lparr>engine := (engine s')\<lparr>interceptedData :=
                              interceptedData (engine s')
                              @ [\<lparr>item_url = url, item_timestamp = now, item_status = status,
                                  item_headers = hs, item_data = data,
                                  item_size = length responseBody\<rparr>]\<rparr>\<rparr>)))"

text \<open>
  One event delivered to the observers. Before \<open>setupInterception\<close> has run no
  observer is installed (\<open>failedRequests\<close> is still \<open>undefined\<close>) and an event changes
  nothing. The request observer only continues the request.
\<close>

fun handle :: "host \<Rightarrow> session \<Rightarrow> event \<Rightarrow> session" where
  "handle h s (RequestEvent url) = s"
| "handle h s (RequestFailedEvent url failure now) =
     (if failedRequests (engine s) = None then s else on_requestfailed s url failure now)"
| "handle h s (ResponseEvent rid url status hs) =
     (if failedRequests (engine s) = None then s else on_response s rid url status hs)"
| "handle h s (TextSettled rid outcome now) =
     (if failedRequests (engine s) = None then s else on_text_settled h s rid outcome now)"









section \<open>The completion detector\<close>

text \<open>
  The page during the wait: the events with the time (in ms after \<open>startTime\<close>) at
  which their handlers run, in the order they run, and the time the page-state check
  takes when it starts at a given time. \<open>waitFor(page, ms)\<close> awaits \<open>page.evaluate\<close>: the
  call that starts at time \<open>t\<close> either returns after exactly \<open>ms\<close> or is rejected with
  the error \<open>waitFor_error env t\<close>, which nothing in the detector catches. An event
  stamped \<open>t\<close> has been handled when the detector reads the list at time \<open>t\<close> or later.
\<close>

record page_env =
  timeline :: "(nat \<times> event) list"
  retrigger_ms :: "nat \<Rightarrow> nat"
  waitFor_error :: "nat \<Rightarrow> js_error option"

definition session_at :: "host \<Rightarrow> page_env \<Rightarrow> session \<Rightarrow> nat \<Rightarrow> session" where
  "session_at h env s0 t = foldl (handle h) s0 (map snd (filter (\<lambda>p. fst p \<le> t) (timeline env)))"

definition count_at :: "host \<Rightarrow> page_env \<Rightarrow> session \<Rightarrow> nat \<Rightarrow> nat" where
  "count_at h env s0 t = length (interceptedData (engine (session_at h env s0 t)))"

datatype console_line =
    Waiting
  | Received nat
  | Completed
  | FailedDetected nat
  | FailedLine string string

record wait_outcome =
  wait_result :: "js_error + unit"
  wait_end :: nat
  console :: "console_line list"

definition no_data_message :: string where
  "no_data_message =
     ''No flight data intercepted within timeout period. Check for network errors or anti-bot detection.''"

text \<open>
  The end of an iteration: the page-state check on every tenth one (it catches its
  own errors), after which the 1 s wait starts.
\<close>

definition tick_start :: "page_env \<Rightarrow> nat \<Rightarrow> nat \<Rightarrow> nat" where
  "tick_start env checkCount t = (if checkCount mod 10 = 0 then t + retrigger_ms env t else t)"

text \<open>A rejected \<open>waitFor\<close> leaves \<open>waitForSearchResults\<close> with its error.\<close>

definition rejected :: "js_error \<Rightarrow> nat \<Rightarrow> console_line list \<Rightarrow> wait_outcome" where
  "rejected e t lg = \<lparr> wait_result = Inl e, wait_end = t, console = lg \<rparr>"

text \<open>After the loop: the failed requests are written to the console, then the list is tested.\<close>

definition failed_lines :: "searcher \<Rightarrow> console_line list" where
  "failed_lines s =
     (case failedRequests s of
        None \<Rightarrow> []
      | Some reqs \<Rightarrow>
          if length reqs > 0
          then FailedDetected (length reqs) # map (\<lambda>req. FailedLine (failed_url req) (failed_error req)) reqs
          else [])"

definition after_loop :: "host \<Rightarrow> page_env \<Rightarrow> session \<Rightarrow> nat \<Rightarrow> console_line list \<Rightarrow> wait_outcome" where
  "after_loop h env s0 t lg =
     \<lparr> wait_result =
         (if count_at h env s0 t = 0 then Inl (Error no_data_message) else Inr ()),
       wait_end = t,
       console = lg @ failed_lines (engine (session_at h env s0 t)) \<rparr>"

function wait_loop ::
  "host \<Rightarrow> page_env \<Rightarrow> session \<Rightarrow> nat \<Rightarrow> nat \<Rightarrow> nat \<Rightarrow> nat \<Rightarrow> console_line list \<Rightarrow> wait_outcome" where
  "wait_loop h env s0 maxWait t lastDataCount checkCount lg =
     (if t < maxWait then
        (if count_at h env s0 t > lastDataCount then
           (case waitFor_error env t of
              Some e \<Rightarrow> rejected e t (lg @ [Received (count_at h env s0 t)])
            | None \<Rightarrow>
                if count_at h env s0 (t + 3000) = count_at h env s0 t then
                  \<lparr> wait_result = Inr (), wait_end = t + 3000,
                    console = lg @ [Received (count_at h env s0 t), Completed] \<rparr>
                else
                  (case waitFor_error env (tick_start env (checkCount + 1) (t + 3000)) of
                     Some e \<Rightarrow>
                       rejected e (tick_start env (checkCount + 1) (t + 3000))
                         (lg @ [Received (count_at h env s0 t)])
                   | None \<Rightarrow>
                       wait_loop h env s0 maxWait (tick_start env (checkCount + 1) (t + 3000) + 1000)
                         (count_at h env s0 t) (checkCount + 1)
                         (lg @ [Received (count_at h env s0 t)])))
         else
           (case waitFor_error env (tick_start env (checkCount + 1) t) of
              Some e \<Rightarrow> rejected e (tick_start env (checkCount + 1) t) lg
            | None \<Rightarrow>
                wait_loop h env s0 maxWait (tick_start env (checkCount + 1) t + 1000)
                  lastDataCount (checkCount + 1) lg))
      else after_loop h env s0 t lg)"
  by pat_completeness auto
termination
  by (relation "measure (\<lambda>(h, env, s0, maxWait, t, lastDataCount, checkCount, lg). maxWait - t)")
     (auto simp: tick_start_def)

declare wait_loop.simps [simp del]

definition waitForSearchResults :: "host \<Rightarrow> page_env \<Rightarrow> session \<Rightarrow> nat \<Rightarrow> wait_outcome" where
  "waitForSearchResults h env s0 maxWait = wait_loop h env s0 maxWait 0 0 0 [Waiting]"

section \<open>The navigation retrier\<close>

text \<open>
  What one attempt does inside its \<open>try\<close> block: \<open>page.goto\<close>, the 3 s settle wait or
  \<open>page.title()\<close> raises with a message, or the title is read. The back-off wait stands
  in the \<open>catch\<close> block: when the wait after attempt \<open>k\<close> is rejected, with the error
  \<open>backoff k\<close>, that error leaves \<open>navigateWithRetry\<close>.
\<close>

datatype nav_attempt = Throws string | Title string

datatype effect =
    BrowserLaunched
  | PageOpened
  | Goto string
  | WaitFor nat
  | FormFilled
  | FormSubmitted
  | BrowserClosed

text \<open>\<open>title && !title.includes("Error")\<close>.\<close>

definition title_ok :: "string \<Rightarrow> bool" where
  "title_ok title = (title \<noteq> [] \<and> \<not> js_includes title ''Error'')"

function nav_loop ::
  "(nat \<Rightarrow> nav_attempt) \<Rightarrow> (nat \<Rightarrow> js_error option) \<Rightarrow> string \<Rightarrow> nat \<Rightarrow> nat \<Rightarrow> effect list
     \<Rightarrow> (js_error + unit) \<times> effect list" where
  "nav_loop page backoff url maxRetries attempt tr =
     (if attempt \<le> maxRetries then
        (case page attempt of
           Title title \<Rightarrow>
             if title_ok title then (Inr (), tr @ [Goto url, WaitFor 3000])
             else nav_loop page backoff url maxRetries (attempt + 1) (tr @ [Goto url, WaitFor 3000])
         | Throws message \<Rightarrow>
             if attempt = maxRetries then
               (Inl (Error (''Failed to navigate after '' @ js_string_of_nat maxRetries
                            @ '' attempts: '' @ message)),
                tr @ [Goto url])
             else
               (case backoff attempt of
                  Some e \<Rightarrow> (Inl e, tr @ [Goto url])
                | None \<Rightarrow>
                    nav_loop page backoff url maxRetries (attempt + 1)
                      (tr @ [Goto url, WaitFor (2000 * attempt)])))
      else (Inr (), tr))"
  by pat_completeness auto
termination
  by (relation "measure (\<lambda>(page, backoff, url, maxRetries, attempt, tr). Suc maxRetries - attempt)") auto

declare nav_loop.simps [simp del]

definition navigateWithRetry ::
  "(nat \<Rightarrow> nav_attempt) \<Rightarrow> (nat \<Rightarrow> js_error option) \<Rightarrow> string \<Rightarrow> nat
     \<Rightarrow> (js_error + unit) \<times> effect list" where
  "navigateWithRetry page backoff url maxRetries = nav_loop page backoff url maxRetries 1 []"

section \<open>The session controller\<close>

text \<open>
  What the browser does during one search: whether a stage raises, what the
  navigation attempts and the back-off waits give, the events handled while navigating
  (or while the form is driven), the page during the wait, and the clock at the final
  parse. On the form path \<open>home_error\<close> is what loading the landing page or the 3 s
  wait after it raises, \<open>fill_error\<close> and \<open>submit_error\<close> what the form driver and the
  submission rethrow (their inner waits included).
\<close>

record browser_env =
  launch_error :: "js_error option"
  newPage_error :: "js_error option"
  antiDetection_error :: "js_error option"
  requestInterception_error :: "js_error option"
  navigation :: "nat \<Rightarrow> nav_attempt"
  backoff_error :: "nat \<Rightarrow> js_error option"
  early_events :: "event list"
  page :: page_env
  home_error :: "js_error option"
  fill_error :: "js_error option"
  submit_error :: "js_error option"
  close_error :: "js_error option"
  clock :: string

text \<open>The end of both searches: wait for the captures, then parse them.\<close>

definition wait_and_parse ::
  "host \<Rightarrow> browser_env \<Rightarrow> session \<Rightarrow> options \<Rightarrow> effect list \<Rightarrow> (js_error + result) \<times> session \<times> effect list" where
  "wait_and_parse h env s opts tr =
     (let w = waitForSearchResults h (page env) s 60000;
          s' = session_at h (page env) s (wait_end w)
      in case wait_result w of
           Inl e \<Rightarrow> (Inl e, s', tr @ [WaitFor (wait_end w)])
         | Inr u \<Rightarrow> (Inr (parseInterceptedData h (clock env) (engine s') opts), s',
                     tr @ [WaitFor (wait_end w)]))"

text \<open>The stages shared by both searches, up to the installed interception.\<close>

definition open_page ::
  "browser_env \<Rightarrow> searcher \<Rightarrow> options \<Rightarrow> (js_error + session) \<times> effect list" where
  "open_page env s opts =
     (case newPage_error env of
        Some e \<Rightarrow> (Inl e, [])
      | None \<Rightarrow>
          (case antiDetection_error env of
             Some e \<Rightarrow> (Inl e, [PageOpened])
           | None \<Rightarrow>
               (case requestInterception_error env of
                  Some e \<Rightarrow> (Inl e, [PageOpened])
                | None \<Rightarrow> (Inr \<lparr>engine = setupInterception s opts, awaiting = []\<rparr>, [PageOpened]))))"

text \<open>The \<open>try\<close> block of \<open>searchByURL\<close>.\<close>

definition searchByURL_try ::
  "host \<Rightarrow> browser_env \<Rightarrow> searcher \<Rightarrow> string \<Rightarrow> options \<Rightarrow> (js_error + result) \<times> session \<times> effect list" where
  "searchByURL_try h env s searchURL opts =
     (case open_page env s opts of
        (Inl e, tr) \<Rightarrow> (Inl e, \<lparr>engine = s, awaiting = []\<rparr>, tr)
      | (Inr s1, tr) \<Rightarrow>
          (let s2 = foldl (handle h) s1 (early_events env)
           in case navigateWithRetry (navigation env) (backoff_error env) searchURL 3 of
                (Inl e, ntr) \<Rightarrow> (Inl e, s2, tr @ ntr)
              | (Inr u, ntr) \<Rightarrow> wait_and_parse h env s2 opts (tr @ ntr)))"

text \<open>
  \<open>try { ... } finally { await browser.close() }\<close>: the block's outcome is kept unless
  closing raises.
\<close>

definition finally_close ::
  "browser_env \<Rightarrow> (js_error + result) \<times> session \<times> effect list \<Rightarrow> (js_error + result) \<times> session \<times> effect list" where
  "finally_close env out =
     (case out of
        (r, s, tr) \<Rightarrow>
          (case close_error env of None \<Rightarrow> r | Some e \<Rightarrow> Inl e, s, tr @ [BrowserClosed]))"

text \<open>\<open>searchByURL\<close>: the launch stands before the \<open>try\<close>.\<close>

definition searchByURL ::
  "host \<Rightarrow> browser_env \<Rightarrow> searcher \<Rightarrow> string \<Rightarrow> options \<Rightarrow> (js_error + result) \<times> session \<times> effect list" where
  "searchByURL h env s searchURL opts =
     (case launch_error env of
        Some e \<Rightarrow> (Inl e, \<lparr>engine = s, awaiting = []\<rparr>, [])
      | None \<Rightarrow>
          (case finally_close env (searchByURL_try h env s searchURL opts) of
             (r, s', tr) \<Rightarrow> (r, s', BrowserLaunched # tr)))"

text \<open>
  The names an identifier of \<open>searchByFormInteraction\<close> can resolve to: its parameters
  and locals, the bindings of the module \<open>united.js\<close> (with those of the module wrapper),
  and the global names of the language and of the runtime. No file of the program
  adds a property to the global object.
\<close>

definition function_bindings :: "string list" where
  "function_bindings = [''searchParams'', ''options'', ''browser'']"

definition module_bindings :: "string list" where
  "module_bindings =
     [''fs'', ''path'', ''puppeteer'', ''UnitedFlightSearcher'', ''testWithURL'',
      ''extractParamsFromURL'', ''displayResults'',
      ''exports'', ''require'', ''module'', ''__filename'', ''__dirname'']"

definition global_bindings :: "string list" where
  "global_bindings =
     [''globalThis'', ''global'', ''Infinity'', ''NaN'', ''undefined'',
      ''eval'', ''isFinite'', ''isNaN'', ''parseFloat'', ''parseInt'',
      ''decodeURI'', ''decodeURIComponent'', ''encodeURI'', ''encodeURIComponent'',
      ''escape'', ''unescape'',
      ''Object'', ''Function'', ''Boolean'', ''Symbol'', ''Error'', ''AggregateError'',
      ''EvalError'', ''RangeError'', ''ReferenceError'', ''SyntaxError'', ''TypeError'',
      ''URIError'', ''Number'', ''BigInt'', ''Math'', ''Date'', ''String'', ''RegExp'',
      ''Array'', ''Int8Array'', ''Uint8Array'', ''Uint8ClampedArray'', ''Int16Array'',
      ''Uint16Array'', ''Int32Array'', ''Uint32Array'', ''Float32Array'', ''Float64Array'',
      ''BigInt64Array'', ''BigUint64Array'', ''Map'', ''Set'', ''WeakMap'', ''WeakSet'',
      ''WeakRef'', ''FinalizationRegistry'', ''ArrayBuffer'', ''SharedArrayBuffer'',
      ''Atomics'', ''DataView'', ''JSON'', ''Promise'', ''Reflect'', ''Proxy'', ''Intl'',
      ''WebAssembly'',
      ''console'', ''process'', ''Buffer'', ''setTimeout'', ''clearTimeout'',
      ''setInterval'', ''clearInterval'', ''setImmediate'', ''clearImmediate'',
      ''queueMicrotask'', ''structuredClone'', ''atob'', ''btoa'', ''performance'',
      ''fetch'', ''URL'', ''URLSearchParams'', ''TextEncoder'', ''TextDecoder'',
      ''AbortController'', ''AbortSignal'', ''Event'', ''EventTarget'',
      ''MessageChannel'', ''MessageEvent'', ''MessagePort'', ''BroadcastChannel'',
      ''Blob'', ''FormData'', ''Headers'', ''Request'', ''Response'', ''crypto'']"

definition resolve :: "string \<Rightarrow> js_error + unit" where
  "resolve name =
     (if name \<in> set (function_bindings @ module_bindings @ global_bindings) then Inr ()
      else Inl (ReferenceError (name @ '' is not defined'')))"

text \<open>
  The \<open>try\<close> block of \<open>searchByFormInteraction\<close>: the landing page, the form, the
  submission, then the same wait and parse. \<open>fillSearchFormManually\<close> and
  \<open>submitSearchManually\<close> rethrow what they catch.
\<close>

definition searchByFormInteraction_try ::
  "host \<Rightarrow> browser_env \<Rightarrow> searcher \<Rightarrow> options \<Rightarrow> (js_error + result) \<times> session \<times> effect list" where
  "searchByFormInteraction_try h env s opts =
     (case open_page env s opts of
        (Inl e, tr) \<Rightarrow> (Inl e, \<lparr>engine = s, awaiting = []\<rparr>, tr)
      | (Inr s1, tr) \<Rightarrow>
          (let s2 = foldl (handle h) s1 (early_events env)
           in case home_error env of
                Some e \<Rightarrow> (Inl e, s2, tr @ [Goto ''https://www.united.com''])
              | None \<Rightarrow>
                  (case fill_error env of
                     Some e \<Rightarrow> (Inl e, s2, tr @ [Goto ''https://www.united.com'', WaitFor 3000])
                   | None \<Rightarrow>
                       (case submit_error env of
                          Some e \<Rightarrow>
                            (Inl e, s2, tr @ [Goto ''https://www.united.com'', WaitFor 3000, FormFilled])
                        | None \<Rightarrow>
                            wait_and_parse h env s2 opts
                              (tr @ [Goto ''https://www.united.com'', WaitFor 3000, FormFilled,
                                     FormSubmitted, WaitFor 3000])))))"

text \<open>
  \<open>searchByFormInteraction\<close>: the arguments of \<open>puppeteer.launch\<close> are evaluated before
  the call; the last launch argument reads the identifier \<open>proxies\<close>.
\<close>

record search_params =
  param_from :: "string option"
  param_to :: "string option"
  param_departDate :: "string option"
  param_returnDate :: "string option"
  param_passengers :: nat

definition searchByFormInteraction ::
  "host \<Rightarrow> browser_env \<Rightarrow> searcher \<Rightarrow> search_params \<Rightarrow> options \<Rightarrow> (js_error + result) \<times> session \<times> effect list" where
  "searchByFormInteraction h env s searchParams opts =
     (case resolve ''proxies'' of
        Inl e \<Rightarrow> (Inl e, \<lparr>engine = s, awaiting = []\<rparr>, [])
      | Inr u \<Rightarrow>
          (case launch_error env of
             Some e \<Rightarrow> (Inl e, \<lparr>engine = s, awaiting = []\<rparr>, [])
           | None \<Rightarrow>
               (case finally_close env (searchByFormInteraction_try h env s opts) of
                  (r, s', tr) \<Rightarrow> (r, s', BrowserLaunched # tr))))"

text \<open>Whether a browser session is open after a sequence of effects.\<close>

fun browser_open :: "effect list \<Rightarrow> bool \<Rightarrow> bool" where
  "browser_open [] b = b"
| "browser_open (BrowserLaunched # tr) b = browser_open tr True"
| "browser_open (BrowserClosed # tr) b = browser_open tr False"
| "browser_open (e # tr) b = browser_open tr b"

section \<open>Example inputs\<close>

text \<open>Concrete engines, pages and payloads, for the examples of the claims below.\<close>

definition example_capture :: "string \<Rightarrow> string \<Rightarrow> nat \<Rightarrow> capture" where
  "example_capture url stamp n =
     \<lparr> item_url = url, item_timestamp = stamp, item_status = 200, item_headers = [],
       item_data = JObj [(''Trips'', JArr [JObj [(''Origin'', JStr url)]])], item_size = n \<rparr>"

definition example_searcher :: "capture list \<Rightarrow> searcher" where
  "example_searcher cs =
     \<lparr> headless = True, timeout = 60000, interceptedData = cs, saveResponses = False,
       outputDir = ''./flight_data'', failedRequests = Some [] \<rparr>"

definition example_host :: host where
  "example_host = \<lparr> JSON_parse = (\<lambda>body. Some (JObj [(''Trips'', JArr [JObj [(''Origin'', JStr body)]])])),
                     parseFloat = (\<lambda>v. NaN) \<rparr>"

definition example_options :: options where
  "example_options = \<lparr> logRequests = False, filename = None \<rparr>"

definition four_captures :: "capture list" where
  "four_captures =
     [example_capture ''https://www.united.com/api/flight/FetchFlights?n=1'' ''2025-08-01T10:00:01.000Z'' 100,
      example_capture ''https://www.united.com/api/flight/FetchFlights?n=2'' ''2025-08-01T10:00:02.000Z'' 250,
      example_capture ''https://www.united.com/api/flight/FetchFlights?n=3'' ''2025-08-01T10:00:03.000Z'' 250,
      example_capture ''https://www.united.com/api/flight/FetchFlights?n=4'' ''2025-08-01T10:00:04.000Z'' 80]"

definition example_failure :: failed_request where
  "example_failure =
     \<lparr> failed_url = ''https://www.united.com/api/flight/FetchFlights'',
       failed_error = ''net::ERR_HTTP2_PROTOCOL_ERROR'',
       failed_timestamp = ''2025-08-01T10:00:00.500Z'' \<rparr>"

definition example_session :: session where
  "example_session =
     \<lparr> engine = setupInterception (example_searcher []) example_options, awaiting = [] \<rparr>"


definition two_arrivals :: page_env where
  "two_arrivals =
     \<lparr> timeline =
         [(1000, ResponseEvent 1 ''https://www.united.com/api/flight/FetchFlights?n=1'' 200 []),
          (1000, TextSettled 1 (Inr ''[1]'') ''2025-08-01T10:00:01.000Z''),
          (2000, ResponseEvent 2 ''https://www.united.com/api/flight/FetchFlights?n=2'' 200 []),
          (2000, TextSettled 2 (Inr ''[2]'') ''2025-08-01T10:00:02.000Z'')],
       retrigger_ms = (\<lambda>t. 0), waitFor_error = (\<lambda>t. None) \<rparr>"

definition two_arrivals_late :: page_env where
  "two_arrivals_late =
     \<lparr> timeline =
         [(1001, ResponseEvent 1 ''https://www.united.com/api/flight/FetchFlights?n=1'' 200 []),
          (1001, TextSettled 1 (Inr ''[1]'') ''2025-08-01T10:00:01.000Z''),
          (2001, ResponseEvent 2 ''https://www.united.com/api/flight/FetchFlights?n=2'' 200 []),
          (2001, TextSettled 2 (Inr ''[2]'') ''2025-08-01T10:00:02.000Z'')],
       retrigger_ms = (\<lambda>t. 0), waitFor_error = (\<lambda>t. None) \<rparr>"

definition no_page_events :: page_env where
  "no_page_events = \<lparr> timeline = [], retrigger_ms = (\<lambda>t. 0), waitFor_error = (\<lambda>t. None) \<rparr>"

definition failed_session :: session where
  "failed_session = example_session\<lparr>engine := (engine example_session)\<lparr>failedRequests := Some [example_failure]\<rparr>\<rparr>"

definition example_browser :: "js_error option \<Rightarrow> (nat \<Rightarrow> nav_attempt) \<Rightarrow> browser_env" where
  "example_browser launch nav =
     \<lparr> launch_error = launch, newPage_error = None, antiDetection_error = None,
       requestInterception_error = None, navigation = nav, backoff_error = (\<lambda>k. None),
       early_events = [],
       page = two_arrivals, home_error = None, fill_error = None, submit_error = None,
       close_error = None, clock = ''2025-08-01T10:01:00.000Z'' \<rparr>"

definition example_params :: search_params where
  "example_params =
     \<lparr> param_from = Some ''PHL'', param_to = Some ''NYC'', param_departDate = Some ''2025-08-15'',
       param_returnDate = None, param_passengers = 1 \<rparr>"

definition example_trip :: jsval where
  "example_trip =
     JObj [(''Index'', JNum (Finite 1)), (''Origin'', JStr ''PHL''), (''Destination'', JStr ''LGA''),
           (''DepartDate'', JStr ''2025-08-15''),
           (''ColumnInformation'',
              JObj [(''Columns'',
                 JArr [JObj [(''Type'', JStr ''ECONOMY''), (''DataSourceLabel'', JStr '' Economy '')]])])]"

definition example_trips :: "jsval list" where
  "example_trips = [JNull, example_trip]"

section \<open>Properties of the string search\<close>

lemma js_includes_iff_sublist: "js_includes s pat \<longleftrightarrow> sublist pat s"
  by (induction s) (auto simp: sublist_Cons_right)

lemma js_includes_append:
  "js_includes s (p @ q) \<Longrightarrow> js_includes s p \<and> js_includes s q"
  unfolding js_includes_iff_sublist
  by (meson sublist_appendI sublist_order.order.trans sublist_order.order_refl
      suffix_imp_sublist prefix_imp_sublist prefixI suffixI)

section \<open>Claim C2: the qualifying-response predicate\<close>

text \<open>
  C2 as the specification states it: the predicate holds exactly when the URL contains
  \<open>FetchFlights\<close>, or contains both \<open>/api/\<close> and the domain \<open>united.com\<close>.
  The source asks for the longer segment \<open>/api/flight/\<close> in the second alternative, so
  a URL of another API family on the domain is not qualifying although the stated
  rule accepts it.
\<close>

theorem C2_api_segment_counterexample:
  "\<not> (isFetchFlightsAPI ''https://www.united.com/api/home/config''
        \<longleftrightarrow> (js_includes ''https://www.united.com/api/home/config'' ''FetchFlights''
             \<or> (js_includes ''https://www.united.com/api/home/config'' ''/api/''
                \<and> js_includes ''https://www.united.com/api/home/config'' ''united.com'')))"
  by (simp add: isFetchFlightsAPI_def)

text \<open>
  C2 amended: for every URL, the predicate holds if and only if the URL contains the
  endpoint name \<open>FetchFlights\<close>, or contains both the segment \<open>/api/flight/\<close> and the
  domain \<open>united.com\<close>.
\<close>

theorem C2_isFetchFlightsAPI_iff:
  "isFetchFlightsAPI url \<longleftrightarrow>
     (js_includes url ''FetchFlights''
      \<or> (js_includes url ''/api/flight/'' \<and> js_includes url ''united.com''))"
proof -
  have "js_includes url ''/api/flight/FetchFlights'' \<Longrightarrow> js_includes url ''FetchFlights''"
    using js_includes_append [of url "''/api/flight/''" "''FetchFlights''"] by simp
  then show ?thesis
    unfolding isFetchFlightsAPI_def by blast
qed

section \<open>Claim C1: the authoritative capture\<close>

lemma foldl_larger_first_max:
  "\<exists>i < length (x # xs).
      (x # xs) ! i = foldl larger x xs
    \<and> (\<forall>j < length (x # xs). item_size ((x # xs) ! j) \<le> item_size (foldl larger x xs))
    \<and> (\<forall>j < i. item_size ((x # xs) ! j) < item_size (foldl larger x xs))"
proof (induction xs rule: rev_induct)
  case Nil
  show ?case by simp
next
  case (snoc y ys)
  let ?m = "foldl larger x ys"
  from snoc obtain i where i: "i < length (x # ys)" "(x # ys) ! i = ?m"
    and le: "\<forall>j < length (x # ys). item_size ((x # ys) ! j) \<le> item_size ?m"
    and lt: "\<forall>j < i. item_size ((x # ys) ! j) < item_size ?m"
    by blast
  have nth_old: "\<And>j. j < length (x # ys) \<Longrightarrow> (x # ys @ [y]) ! j = (x # ys) ! j"
    by (metis append_Cons nth_append)
  have nth_new: "(x # ys @ [y]) ! length (x # ys) = y"
    by (metis append_Cons nth_append_length)
  show ?case
  proof (cases "item_size y > item_size ?m")
    case True
    then have sel: "foldl larger x (ys @ [y]) = y" by (simp add: larger_def)
    have "\<forall>j < length (x # ys @ [y]). item_size ((x # ys @ [y]) ! j) \<le> item_size y"
    proof (intro allI impI)
      fix j assume "j < length (x # ys @ [y])"
      then consider "j < length (x # ys)" | "j = length (x # ys)" by fastforce
      then show "item_size ((x # ys @ [y]) ! j) \<le> item_size y"
      proof cases
        case 1 then show ?thesis using le True nth_old[OF 1] by fastforce
      next
        case 2 then show ?thesis using nth_new by simp
      qed
    qed
    moreover have "\<forall>j < length (x # ys). item_size ((x # ys @ [y]) ! j) < item_size y"
      using le True nth_old by fastforce
    ultimately show ?thesis
      unfolding sel using nth_new by (intro exI[of _ "length (x # ys)"]) simp
  next
    case False
    then have sel: "foldl larger x (ys @ [y]) = ?m" by (simp add: larger_def)
    have "\<forall>j < length (x # ys @ [y]). item_size ((x # ys @ [y]) ! j) \<le> item_size ?m"
    proof (intro allI impI)
      fix j assume "j < length (x # ys @ [y])"
      then consider "j < length (x # ys)" | "j = length (x # ys)" by fastforce
      then show "item_size ((x # ys @ [y]) ! j) \<le> item_size ?m"
      proof cases
        case 1 then show ?thesis using le nth_old[OF 1] by fastforce
      next
        case 2 then show ?thesis using nth_new False by simp
      qed
    qed
    moreover have "\<forall>j < i. item_size ((x # ys @ [y]) ! j) < item_size ?m"
      using lt i(1) nth_old by fastforce
    moreover have "(x # ys @ [y]) ! i = ?m" using i nth_old by simp
    ultimately show ?thesis
      unfolding sel using i(1) by (intro exI[of _ i]) simp
  qed
qed

text \<open>
  C1: for a non-empty capture list, \<open>parseInterceptedData\<close> chooses the capture with
  the largest size, the first such capture on ties (every earlier capture is strictly
  smaller). The result is the normalization of that capture's payload, which is also
  its \<open>rawData\<close>, and its metadata holds the number of captures, that capture's
  \<open>timestamp\<close> as \<open>responseTimestamp\<close>, its \<open>size\<close> as \<open>responseSize\<close>, its \<open>url\<close> as \<open>apiUrl\<close> and
  the clock as \<open>parseTimestamp\<close>. For sizes \<open>[100, 250, 250, 80]\<close> the chosen capture is
  the second one.
\<close>

theorem C1_authoritative_capture:
  assumes "interceptedData s \<noteq> []"
  shows "\<exists>i < length (interceptedData s).
            (\<forall>j < length (interceptedData s).
                item_size (interceptedData s ! j) \<le> item_size (interceptedData s ! i))
          \<and> (\<forall>j < i. item_size (interceptedData s ! j) < item_size (interceptedData s ! i))
          \<and> parseInterceptedData h now s opts =
              (extractFlightInfo h (item_data (interceptedData s ! i)))
                \<lparr>res_metadata :=
                   Some \<lparr> interceptedResponses = length (interceptedData s),
                          responseTimestamp = Some (item_timestamp (interceptedData s ! i)),
                          responseSize = Some (item_size (interceptedData s ! i)),
                          apiUrl = Some (item_url (interceptedData s ! i)),
                          parseTimestamp = Some now,
                          meta_timestamp = None \<rparr>\<rparr>
          \<and> res_rawData (parseInterceptedData h now s opts) = Some (item_data (interceptedData s ! i))
          \<and> res_metadata (parseInterceptedData h now s opts) =
                Some \<lparr> interceptedResponses = length (interceptedData s),
                       responseTimestamp = Some (item_timestamp (interceptedData s ! i)),
                       responseSize = Some (item_size (interceptedData s ! i)),
                       apiUrl = Some (item_url (interceptedData s ! i)),
                       parseTimestamp = Some now,
                       meta_timestamp = None \<rparr>
          \<and> (map item_size (interceptedData s) = [100, 250, 250, 80] \<longrightarrow> i = 1)"
proof -
  from assms obtain x xs where xs: "interceptedData s = x # xs"
    by (cases "interceptedData s") auto
  from foldl_larger_first_max [of x xs] obtain i where i: "i < length (x # xs)"
    and sel: "(x # xs) ! i = foldl larger x xs"
    and le: "\<forall>j < length (x # xs). item_size ((x # xs) ! j) \<le> item_size (foldl larger x xs)"
    and lt: "\<forall>j < i. item_size ((x # xs) ! j) < item_size (foldl larger x xs)"
    by blast
  define L where "L = interceptedData s"
  have L: "L = x # xs" by (simp add: L_def xs)
  define meta where "meta =
      \<lparr> interceptedResponses = length L,
        responseTimestamp = Some (item_timestamp (L ! i)),
        responseSize = Some (item_size (L ! i)),
        apiUrl = Some (item_url (L ! i)),
        parseTimestamp = Some now,
        meta_timestamp = None \<rparr>"
  have parse: "parseInterceptedData h now s opts =
      (extractFlightInfo h (item_data (L ! i)))\<lparr>res_metadata := Some meta\<rparr>"
    unfolding meta_def L sel by (simp add: parseInterceptedData_def xs Let_def)
  have raw: "res_rawData (extractFlightInfo h d) = Some d" for d
    by (simp add: extractFlightInfo_def split: prod.splits option.splits)
  have rawData: "res_rawData (parseInterceptedData h now s opts) = Some (item_data (L ! i))"
    unfolding parse using raw by simp
  have metadata: "res_metadata (parseInterceptedData h now s opts) = Some meta"
    unfolding parse by simp
  have leL: "\<And>j. j < length L \<Longrightarrow> item_size (L ! j) \<le> item_size (L ! i)"
    using le sel unfolding L by metis
  have ltL: "\<And>j. j < i \<Longrightarrow> item_size (L ! j) < item_size (L ! i)"
    using lt sel unfolding L by metis
  have iL: "i < length L" using i unfolding L .
  have example: "i = 1" if sizes: "map item_size L = [100, 250, 250, 80]"
  proof -
    have len: "length L = 4" using arg_cong [OF sizes, of length] by simp
    have nth: "\<And>j. j < 4 \<Longrightarrow> item_size (L ! j) = [100, 250, 250, 80] ! j"
      using sizes len by (metis nth_map)
    have "item_size (L ! 1) \<le> item_size (L ! i)" using leL [of 1] len by simp
    then have big: "250 \<le> item_size (L ! i)" using nth [of 1] by simp
    have "i < 4" using iL len by simp
    then consider "i = 0" | "i = 1" | "i = 2" | "i = 3" by linarith
    then show ?thesis
    proof cases
      case 1 then show ?thesis using big nth [of 0] by simp
    next
      case 2 then show ?thesis .
    next
      case 3
      then have "item_size (L ! 1) < item_size (L ! 2)" using ltL [of 1] by simp
      then show ?thesis using nth [of 1] nth [of 2] by simp
    next
      case 4 then show ?thesis using big nth [of 3] by simp
    qed
  qed
  have "i < length L
      \<and> (\<forall>j < length L. item_size (L ! j) \<le> item_size (L ! i))
      \<and> (\<forall>j < i. item_size (L ! j) < item_size (L ! i))
      \<and> parseInterceptedData h now s opts =
           (extractFlightInfo h (item_data (L ! i)))\<lparr>res_metadata := Some meta\<rparr>
      \<and> res_rawData (parseInterceptedData h now s opts) = Some (item_data (L ! i))
      \<and> res_metadata (parseInterceptedData h now s opts) = Some meta
      \<and> (map item_size L = [100, 250, 250, 80] \<longrightarrow> i = 1)"
    using iL leL ltL parse rawData metadata example by blast
  then show ?thesis unfolding L_def meta_def by blast
qed

theorem C1_authoritative_capture_witness:
  "interceptedData (example_searcher four_captures) \<noteq> []
   \<and> res_metadata (parseInterceptedData example_host ''2025-08-01T10:01:00.000Z''
                     (example_searcher four_captures) example_options)
       = Some \<lparr> interceptedResponses = 4,
                responseTimestamp = Some ''2025-08-01T10:00:02.000Z'',
                responseSize = Some 250,
                apiUrl = Some ''https://www.united.com/api/flight/FetchFlights?n=2'',
                parseTimestamp = Some ''2025-08-01T10:01:00.000Z'',
                meta_timestamp = None \<rparr>
   \<and> res_rawData (parseInterceptedData example_host ''2025-08-01T10:01:00.000Z''
                     (example_searcher four_captures) example_options)
       = Some (JObj [(''Trips'', JArr [JObj [(''Origin'',
                 JStr ''https://www.united.com/api/flight/FetchFlights?n=2'')]])])
   \<and> map origin (flights (parseInterceptedData example_host ''2025-08-01T10:01:00.000Z''
                     (example_searcher four_captures) example_options))
       = [JStr ''https://www.united.com/api/flight/FetchFlights?n=2'']"
proof -
  let ?s = "example_searcher four_captures"
  let ?now = "''2025-08-01T10:01:00.000Z''"
  have ne: "interceptedData ?s \<noteq> []"
    by (simp add: example_searcher_def four_captures_def)
  have sizes: "map item_size (interceptedData ?s) = [100, 250, 250, 80]"
    by (simp add: example_searcher_def four_captures_def example_capture_def)
  from C1_authoritative_capture [OF ne, of example_host ?now example_options]
  obtain i where
    parse: "parseInterceptedData example_host ?now ?s example_options =
              (extractFlightInfo example_host (item_data (interceptedData ?s ! i)))
                \<lparr>res_metadata :=
                   Some \<lparr> interceptedResponses = length (interceptedData ?s),
                          responseTimestamp = Some (item_timestamp (interceptedData ?s ! i)),
                          responseSize = Some (item_size (interceptedData ?s ! i)),
                          apiUrl = Some (item_url (interceptedData ?s ! i)),
                          parseTimestamp = Some ?now,
                          meta_timestamp = None \<rparr>\<rparr>"
    and raw: "res_rawData (parseInterceptedData example_host ?now ?s example_options)
                = Some (item_data (interceptedData ?s ! i))"
    and ex: "map item_size (interceptedData ?s) = [100, 250, 250, 80] \<longrightarrow> i = 1"
    by blast
  have i: "i = 1" using ex sizes by blast
  have second: "interceptedData ?s ! 1 =
      example_capture ''https://www.united.com/api/flight/FetchFlights?n=2'' ''2025-08-01T10:00:02.000Z'' 250"
    by (simp add: example_searcher_def four_captures_def)
  have len: "length (interceptedData ?s) = 4"
    by (simp add: example_searcher_def four_captures_def)
  have fl: "map origin (flights (extractFlightInfo example_host
              (item_data (example_capture ''https://www.united.com/api/flight/FetchFlights?n=2''
                 ''2025-08-01T10:00:02.000Z'' 250))))
            = [JStr ''https://www.united.com/api/flight/FetchFlights?n=2'']"
    by (simp add: example_capture_def extractFlightInfo_def locate_trips_def flight_of_trip_def
        trip_fares_def trip_pricing_def trip_aircraft_def js_or_def)
  have r: "res_rawData (parseInterceptedData example_host ?now ?s example_options)
       = Some (JObj [(''Trips'', JArr [JObj [(''Origin'',
                 JStr ''https://www.united.com/api/flight/FetchFlights?n=2'')]])])"
    unfolding raw i second by (simp add: example_capture_def)
  show ?thesis
    using r unfolding parse i second
    using ne fl by (simp add: len example_capture_def)
qed

section \<open>Claim C6: the reset operation\<close>

text \<open>
  C6 as the specification states it: after \<open>clearData\<close> both session lists have length
  zero. \<open>clearData\<close> assigns \<open>interceptedData\<close> only, so an engine that has recorded a
  failed request still has it after the reset.
\<close>

theorem C6_failure_list_counterexample:
  "\<not> (length (interceptedData (clearData ((example_searcher four_captures)\<lparr>failedRequests := Some [example_failure]\<rparr>))) = 0
      \<and> length (case failedRequests (clearData ((example_searcher four_captures)\<lparr>failedRequests := Some [example_failure]\<rparr>)) of
                   None \<Rightarrow> [] | Some reqs \<Rightarrow> reqs) = 0)"
  by (simp add: clearData_def example_searcher_def)

text \<open>
  C6 amended: \<open>clearData\<close> leaves the capture list empty and the failure list as it
  was; the failure list is replaced by a fresh empty list when \<open>setupInterception\<close>
  runs at the start of the next search, which in turn keeps the capture list.
\<close>

theorem C6_clearData_empties_captures_only:
  "interceptedData (clearData s) = []
   \<and> failedRequests (clearData s) = failedRequests s
   \<and> failedRequests (setupInterception s opts) = Some []
   \<and> interceptedData (setupInterception s opts) = interceptedData s"
  by (simp add: clearData_def setupInterception_def)

section \<open>Claim C10: the form search\<close>

text \<open>
  C10: for every input, \<open>searchByFormInteraction\<close> raises a \<open>ReferenceError\<close> for the
  identifier \<open>proxies\<close> while it builds the launch arguments: no browser session is
  launched (the effect list is empty), the engine and its lists are untouched, and no
  result is returned.
\<close>

theorem C10_form_search_raises_before_launch:
  "searchByFormInteraction h env s searchParams opts =
     (Inl (ReferenceError ''proxies is not defined''), \<lparr>engine = s, awaiting = []\<rparr>, [])"
  by (simp add: searchByFormInteraction_def resolve_def function_bindings_def
      module_bindings_def global_bindings_def)

section \<open>Claim C4: navigation with retry\<close>

text \<open>
  When every attempt raises and no back-off wait is rejected, \<open>navigateWithRetry\<close>
  raises after the last attempt, with the last message, and waits \<open>2000 * attempt\<close> ms
  after each attempt but the last.
\<close>

lemma nav_loop_all_throw:
  assumes "\<forall>k. attempt \<le> k \<and> k \<le> maxRetries \<longrightarrow> nav k = Throws (msg k)"
    and "\<forall>k. backoff k = None"
    and "attempt \<le> maxRetries"
  shows "nav_loop nav backoff url maxRetries attempt tr =
           (Inl (Error (''Failed to navigate after '' @ js_string_of_nat maxRetries
                        @ '' attempts: '' @ msg maxRetries)),
            tr @ concat (map (\<lambda>k. [Goto url, WaitFor (2000 * k)]) [attempt ..< maxRetries]) @ [Goto url])"
  using assms
proof (induction "maxRetries - attempt" arbitrary: attempt tr)
  case 0
  then have eq: "attempt = maxRetries" by simp
  then have here: "nav attempt = Throws (msg maxRetries)" using "0.prems" by simp
  show ?case using here eq by (subst nav_loop.simps) simp
next
  case (Suc d)
  then have lt: "attempt < maxRetries" by simp
  have here: "nav attempt = Throws (msg attempt)" using Suc.prems by simp
  have quiet: "backoff attempt = None" using Suc.prems by simp
  have IH: "nav_loop nav backoff url maxRetries (attempt + 1) (tr @ [Goto url, WaitFor (2000 * attempt)]) =
           (Inl (Error (''Failed to navigate after '' @ js_string_of_nat maxRetries
                        @ '' attempts: '' @ msg maxRetries)),
            (tr @ [Goto url, WaitFor (2000 * attempt)])
              @ concat (map (\<lambda>k. [Goto url, WaitFor (2000 * k)]) [attempt + 1 ..< maxRetries]) @ [Goto url])"
    using Suc.hyps(1) [of "attempt + 1"] Suc.hyps(2) Suc.prems lt by simp
  have up: "[attempt ..< maxRetries] = attempt # [attempt + 1 ..< maxRetries]"
    using lt by (simp add: upt_conv_Cons)
  show ?case
    using here lt quiet IH by (subst nav_loop.simps) (simp add: up)
qed

lemma navigateWithRetry_all_throw:
  assumes "\<forall>k. 1 \<le> k \<and> k \<le> maxRetries \<longrightarrow> nav k = Throws (msg k)"
    and "\<forall>k. backoff k = None"
    and "1 \<le> maxRetries"
  shows "navigateWithRetry nav backoff url maxRetries =
           (Inl (Error (''Failed to navigate after '' @ js_string_of_nat maxRetries
                        @ '' attempts: '' @ msg maxRetries)),
            concat (map (\<lambda>k. [Goto url, WaitFor (2000 * k)]) [1 ..< maxRetries]) @ [Goto url])"
  unfolding navigateWithRetry_def using nav_loop_all_throw [OF assms, of url "[]"] by simp

text \<open>
  A rejected back-off wait ends the navigation with its own error, without another
  attempt.
\<close>

lemma navigateWithRetry_backoff_rejected:
  assumes "nav 1 = Throws message" and "backoff 1 = Some e" and "1 < maxRetries"
  shows "navigateWithRetry nav backoff url maxRetries = (Inl e, [Goto url])"
  unfolding navigateWithRetry_def using assms by (subst nav_loop.simps) simp

text \<open>
  C4 at an input where the claim and the code part: three attempts that load a page
  whose title contains \<open>Error\<close>. The title test fails on each attempt, nothing is
  raised, no back-off wait is made between the attempts (only the 3 s settle waits),
  and after the third attempt the loop ends and the call returns normally, whatever
  the back-off waits would do.
\<close>

theorem C4_error_titles_return_normally:
  "navigateWithRetry (\<lambda>attempt. Title ''Error 503'') backoff
     ''https://www.united.com/en/us/fsr/choose-flights'' 3 =
     (Inr (), [Goto ''https://www.united.com/en/us/fsr/choose-flights'', WaitFor 3000,
               Goto ''https://www.united.com/en/us/fsr/choose-flights'', WaitFor 3000,
               Goto ''https://www.united.com/en/us/fsr/choose-flights'', WaitFor 3000])"
  by (simp add: navigateWithRetry_def title_ok_def nav_loop.simps)

section \<open>Claim C7: the capture list is append-only\<close>








lemma map_of_appended:
  "rid \<noteq> r \<Longrightarrow> map_of (xs @ [(r, v)]) rid = map_of xs rid"
  by (induction xs) auto









section \<open>The completion detector: general facts\<close>

lemma wait_loop_ideal:
  assumes "\<forall>t. waitFor_error env t = None"
  shows "wait_loop h env s0 maxWait t lastDataCount checkCount lg =
     (if t < maxWait then
        (if count_at h env s0 t > lastDataCount then
           (if count_at h env s0 (t + 3000) = count_at h env s0 t then
              \<lparr> wait_result = Inr (), wait_end = t + 3000,
                console = lg @ [Received (count_at h env s0 t), Completed] \<rparr>
            else
              wait_loop h env s0 maxWait (tick_start env (checkCount + 1) (t + 3000) + 1000)
                (count_at h env s0 t) (checkCount + 1) (lg @ [Received (count_at h env s0 t)]))
         else
           wait_loop h env s0 maxWait (tick_start env (checkCount + 1) t + 1000)
             lastDataCount (checkCount + 1) lg)
      else after_loop h env s0 t lg)"
  by (subst wait_loop.simps) (simp add: assms)

lemma wait_loop_result:
  assumes "\<forall>t. waitFor_error env t = None"
  shows "wait_result (wait_loop h env s0 maxWait t lastDataCount checkCount lg) =
     (if count_at h env s0 (wait_end (wait_loop h env s0 maxWait t lastDataCount checkCount lg)) = 0
      then Inl (Error no_data_message) else Inr ())"
  using assms
proof (induction h env s0 maxWait t lastDataCount checkCount lg rule: wait_loop.induct)
  case (1 h env s0 maxWait t lastDataCount checkCount lg)
  note ideal = "1.prems"
  have wf: "\<And>t. waitFor_error env t = None" using ideal by simp
  show ?case
  proof (cases "t < maxWait")
    case False
    then show ?thesis by (subst (1 2) wait_loop_ideal [OF ideal]) (simp add: after_loop_def)
  next
    case True
    show ?thesis
    proof (cases "count_at h env s0 t > lastDataCount")
      case grow: True
      show ?thesis
      proof (cases "count_at h env s0 (t + 3000) = count_at h env s0 t")
        case stable: True
        then show ?thesis using True grow by (subst (1 2) wait_loop_ideal [OF ideal]) simp
      next
        case False
        then show ?thesis
          using True grow "1.IH"(1) [OF True grow wf False wf ideal]
          by (subst (1 2) wait_loop_ideal [OF ideal]) simp
      qed
    next
      case False
      then show ?thesis
        using True "1.IH"(2) [OF True False wf ideal]
        by (subst (1 2) wait_loop_ideal [OF ideal]) simp
    qed
  qed
qed

lemma wait_loop_raises_late:
  assumes "\<forall>t. waitFor_error env t = None"
    and "count_at h env s0 (wait_end (wait_loop h env s0 maxWait t lastDataCount checkCount lg)) = 0"
  shows "maxWait \<le> wait_end (wait_loop h env s0 maxWait t lastDataCount checkCount lg)
     \<and> suffix (failed_lines (engine (session_at h env s0
                   (wait_end (wait_loop h env s0 maxWait t lastDataCount checkCount lg)))))
          (console (wait_loop h env s0 maxWait t lastDataCount checkCount lg))"
  using assms
proof (induction h env s0 maxWait t lastDataCount checkCount lg rule: wait_loop.induct)
  case (1 h env s0 maxWait t lastDataCount checkCount lg)
  let ?w = "wait_loop h env s0 maxWait t lastDataCount checkCount lg"
  note ideal = "1.prems"(1)
  have wf: "\<And>t. waitFor_error env t = None" using ideal by simp
  show ?case
  proof (cases "t < maxWait")
    case False
    then have "?w = after_loop h env s0 t lg" by (subst wait_loop_ideal [OF ideal]) simp
    then show ?thesis using False by (simp add: after_loop_def suffix_def)
  next
    case True
    show ?thesis
    proof (cases "count_at h env s0 t > lastDataCount")
      case grow: True
      show ?thesis
      proof (cases "count_at h env s0 (t + 3000) = count_at h env s0 t")
        case stable: True
        then have "?w = \<lparr> wait_result = Inr (), wait_end = t + 3000,
                console = lg @ [Received (count_at h env s0 t), Completed] \<rparr>"
          using True grow by (subst wait_loop_ideal [OF ideal]) simp
        then show ?thesis using "1.prems"(2) stable grow by simp
      next
        case False
        then have "?w = wait_loop h env s0 maxWait (tick_start env (checkCount + 1) (t + 3000) + 1000)
                (count_at h env s0 t) (checkCount + 1) (lg @ [Received (count_at h env s0 t)])"
          using True grow by (subst wait_loop_ideal [OF ideal]) simp
        then show ?thesis using "1.IH"(1) [OF True grow wf False wf ideal] "1.prems"(2) by simp
      qed
    next
      case False
      then have "?w = wait_loop h env s0 maxWait (tick_start env (checkCount + 1) t + 1000)
             lastDataCount (checkCount + 1) lg"
        using True by (subst wait_loop_ideal [OF ideal]) simp
      then show ?thesis using "1.IH"(2) [OF True False wf ideal] "1.prems"(2) by simp
    qed
  qed
qed

lemma wait_loop_idle:
  assumes "t < maxWait" and "\<not> count_at h env s0 t > lastDataCount" and "(checkCount + 1) mod 10 \<noteq> 0"
    and "waitFor_error env t = None"
  shows "wait_loop h env s0 maxWait t lastDataCount checkCount lg =
           wait_loop h env s0 maxWait (t + 1000) lastDataCount (checkCount + 1) lg"
  using assms by (subst wait_loop.simps) (simp add: tick_start_def)

lemma wait_loop_changed:
  assumes "t < maxWait" and "count_at h env s0 t > lastDataCount"
    and "count_at h env s0 (t + 3000) \<noteq> count_at h env s0 t" and "(checkCount + 1) mod 10 \<noteq> 0"
    and "waitFor_error env t = None" and "waitFor_error env (t + 3000) = None"
  shows "wait_loop h env s0 maxWait t lastDataCount checkCount lg =
           wait_loop h env s0 maxWait (t + 4000) (count_at h env s0 t) (checkCount + 1)
             (lg @ [Received (count_at h env s0 t)])"
  using assms by (subst wait_loop.simps) (simp add: tick_start_def ac_simps)

lemma wait_loop_stable:
  assumes "t < maxWait" and "count_at h env s0 t > lastDataCount"
    and "count_at h env s0 (t + 3000) = count_at h env s0 t"
    and "waitFor_error env t = None"
  shows "wait_loop h env s0 maxWait t lastDataCount checkCount lg =
           \<lparr> wait_result = Inr (), wait_end = t + 3000,
             console = lg @ [Received (count_at h env s0 t), Completed] \<rparr>"
  using assms by (subst wait_loop.simps) simp

lemma wait_loop_timeout:
  assumes "\<not> t < maxWait"
  shows "wait_loop h env s0 maxWait t lastDataCount checkCount lg = after_loop h env s0 t lg"
  using assms by (subst wait_loop.simps) simp

text \<open>
  A rejected \<open>waitFor\<close> ends the wait with its own error, before the budget is used
  and whatever the capture list holds.
\<close>

lemma wait_rejected_at_first_tick:
  assumes "0 < maxWait" and "count_at h env s0 0 = 0" and "waitFor_error env 0 = Some e"
  shows "waitForSearchResults h env s0 maxWait = rejected e 0 [Waiting]"
  unfolding waitForSearchResults_def using assms
  by (subst wait_loop.simps) (simp add: tick_start_def)

lemma wait_rejected_in_window:
  assumes "0 < maxWait" and "count_at h env s0 0 > 0" and "waitFor_error env 0 = Some e"
  shows "waitForSearchResults h env s0 maxWait = rejected e 0 [Waiting, Received (count_at h env s0 0)]"
  unfolding waitForSearchResults_def using assms
  by (subst wait_loop.simps) simp

lemma wait_two_windows:
  assumes "count_at h env s0 0 = 0" and "count_at h env s0 1000 = 1"
    and "count_at h env s0 4000 = 2" and "count_at h env s0 5000 = 2"
    and "count_at h env s0 8000 = 2" and "5000 < maxWait"
    and ideal: "\<forall>t. waitFor_error env t = None"
  shows "waitForSearchResults h env s0 maxWait =
           \<lparr> wait_result = Inr (), wait_end = 8000,
             console = [Waiting, Received 1, Received 2, Completed] \<rparr>"
proof -
  have t0: "wait_loop h env s0 maxWait 0 0 0 [Waiting] = wait_loop h env s0 maxWait 1000 0 1 [Waiting]"
    using assms wait_loop_idle [where t = 0 and maxWait = maxWait and h = h and env = env and ?s0.0 = s0 and lastDataCount = 0 and checkCount = 0 and lg = "[Waiting]"] by (simp del: One_nat_def)
  have t1: "wait_loop h env s0 maxWait 1000 0 1 [Waiting] =
            wait_loop h env s0 maxWait 5000 1 2 [Waiting, Received 1]"
    using assms wait_loop_changed [where t = 1000 and maxWait = maxWait and h = h and env = env and ?s0.0 = s0 and lastDataCount = 0 and checkCount = 1 and lg = "[Waiting]"]
    by (simp del: One_nat_def)
  have t5: "wait_loop h env s0 maxWait 5000 1 2 [Waiting, Received 1] =
            \<lparr> wait_result = Inr (), wait_end = 8000,
              console = [Waiting, Received 1, Received 2, Completed] \<rparr>"
    using assms wait_loop_stable [where t = 5000 and maxWait = maxWait and h = h and env = env and ?s0.0 = s0 and lastDataCount = 1 and checkCount = 2 and lg = "[Waiting, Received 1]"] by (simp del: One_nat_def)
  show ?thesis unfolding waitForSearchResults_def t0 t1 t5 ..
qed

lemma wait_two_windows_late:
  assumes "count_at h env s0 0 = 0" and "count_at h env s0 1000 = 0"
    and "count_at h env s0 2000 = 1" and "count_at h env s0 5000 = 2"
    and "count_at h env s0 6000 = 2" and "count_at h env s0 9000 = 2" and "6000 < maxWait"
    and ideal: "\<forall>t. waitFor_error env t = None"
  shows "waitForSearchResults h env s0 maxWait =
           \<lparr> wait_result = Inr (), wait_end = 9000,
             console = [Waiting, Received 1, Received 2, Completed] \<rparr>"
proof -
  have t0: "wait_loop h env s0 maxWait 0 0 0 [Waiting] = wait_loop h env s0 maxWait 1000 0 1 [Waiting]"
    using assms wait_loop_idle [where t = 0 and maxWait = maxWait and h = h and env = env and ?s0.0 = s0 and lastDataCount = 0 and checkCount = 0 and lg = "[Waiting]"] by (simp del: One_nat_def)
  have t1: "wait_loop h env s0 maxWait 1000 0 1 [Waiting] = wait_loop h env s0 maxWait 2000 0 2 [Waiting]"
    using assms wait_loop_idle [where t = 1000 and maxWait = maxWait and h = h and env = env and ?s0.0 = s0 and lastDataCount = 0 and checkCount = 1 and lg = "[Waiting]"]
    by (simp del: One_nat_def)
  have t2: "wait_loop h env s0 maxWait 2000 0 2 [Waiting] =
            wait_loop h env s0 maxWait 6000 1 3 [Waiting, Received 1]"
    using assms wait_loop_changed [where t = 2000 and maxWait = maxWait and h = h and env = env and ?s0.0 = s0 and lastDataCount = 0 and checkCount = 2 and lg = "[Waiting]"]
    by (simp del: One_nat_def)
  have t6: "wait_loop h env s0 maxWait 6000 1 3 [Waiting, Received 1] =
            \<lparr> wait_result = Inr (), wait_end = 9000,
              console = [Waiting, Received 1, Received 2, Completed] \<rparr>"
    using assms wait_loop_stable [where t = 6000 and maxWait = maxWait and h = h and env = env and ?s0.0 = s0 and lastDataCount = 1 and checkCount = 3 and lg = "[Waiting, Received 1]"] by (simp del: One_nat_def)
  show ?thesis unfolding waitForSearchResults_def t0 t1 t2 t6 ..
qed

lemma two_arrivals_counts:
  "count_at example_host two_arrivals example_session 0 = 0"
  "count_at example_host two_arrivals example_session 1000 = 1"
  "count_at example_host two_arrivals example_session 4000 = 2"
  "count_at example_host two_arrivals example_session 5000 = 2"
  "count_at example_host two_arrivals example_session 8000 = 2"
  by (simp_all add: count_at_def session_at_def two_arrivals_def example_session_def
      example_host_def setupInterception_def example_searcher_def on_response_def
      on_text_settled_def isFetchFlightsAPI_def js_trim_def js_whitespace_def Let_def)

lemma two_arrivals_late_counts:
  "count_at example_host two_arrivals_late example_session 0 = 0"
  "count_at example_host two_arrivals_late example_session 1000 = 0"
  "count_at example_host two_arrivals_late example_session 2000 = 1"
  "count_at example_host two_arrivals_late example_session 5000 = 2"
  "count_at example_host two_arrivals_late example_session 6000 = 2"
  "count_at example_host two_arrivals_late example_session 9000 = 2"
  by (simp_all add: count_at_def session_at_def two_arrivals_late_def example_session_def
      example_host_def setupInterception_def example_searcher_def on_response_def
      on_text_settled_def isFetchFlightsAPI_def js_trim_def js_whitespace_def Let_def)

lemma session_at_no_events: "session_at h no_page_events s t = s"
  by (simp add: session_at_def no_page_events_def)

lemma count_at_no_events: "count_at h no_page_events s t = length (interceptedData (engine s))"
  by (simp add: count_at_def session_at_no_events)

lemma wait_loop_quiet:
  assumes "\<forall>t. waitFor_error env t = None" and "\<forall>t'. count_at h env s0 t' \<le> lastDataCount"
  shows "console (wait_loop h env s0 maxWait t lastDataCount checkCount lg) =
           lg @ failed_lines (engine (session_at h env s0
                  (wait_end (wait_loop h env s0 maxWait t lastDataCount checkCount lg))))"
  using assms
proof (induction h env s0 maxWait t lastDataCount checkCount lg rule: wait_loop.induct)
  case (1 h env s0 maxWait t lastDataCount checkCount lg)
  let ?w = "wait_loop h env s0 maxWait t lastDataCount checkCount lg"
  note ideal = "1.prems"(1)
  have wf: "\<And>t. waitFor_error env t = None" using ideal by simp
  have quiet: "\<not> count_at h env s0 t > lastDataCount" using "1.prems"(2) by (simp add: not_less)
  show ?case
  proof (cases "t < maxWait")
    case False
    then have "?w = after_loop h env s0 t lg" by (rule wait_loop_timeout)
    then show ?thesis by (simp add: after_loop_def)
  next
    case True
    then have "?w = wait_loop h env s0 maxWait (tick_start env (checkCount + 1) t + 1000)
             lastDataCount (checkCount + 1) lg"
      using quiet by (subst wait_loop_ideal [OF ideal]) simp
    then show ?thesis using "1.IH"(2) [OF True quiet wf ideal "1.prems"(2)] by simp
  qed
qed

lemma wait_timeout_between_windows:
  assumes "count_at h env s0 0 = 0" and "count_at h env s0 1000 = 1"
    and "count_at h env s0 4000 = 2" and "count_at h env s0 5000 = 2"
    and "1000 < maxWait" and "maxWait \<le> 5000"
    and ideal: "\<forall>t. waitFor_error env t = None"
  shows "waitForSearchResults h env s0 maxWait =
           \<lparr> wait_result = Inr (), wait_end = 5000,
             console = [Waiting, Received 1] @ failed_lines (engine (session_at h env s0 5000)) \<rparr>"
proof -
  have t0: "wait_loop h env s0 maxWait 0 0 0 [Waiting] = wait_loop h env s0 maxWait 1000 0 1 [Waiting]"
    using assms wait_loop_idle [where t = 0 and maxWait = maxWait and h = h and env = env and ?s0.0 = s0 and lastDataCount = 0 and checkCount = 0 and lg = "[Waiting]"] by (simp del: One_nat_def)
  have t1: "wait_loop h env s0 maxWait 1000 0 1 [Waiting] =
            wait_loop h env s0 maxWait 5000 1 2 [Waiting, Received 1]"
    using assms wait_loop_changed [where t = 1000 and maxWait = maxWait and h = h and env = env and ?s0.0 = s0 and lastDataCount = 0 and checkCount = 1 and lg = "[Waiting]"]
    by (simp del: One_nat_def)
  have t5: "wait_loop h env s0 maxWait 5000 1 2 [Waiting, Received 1] =
            after_loop h env s0 5000 [Waiting, Received 1]"
    using assms by (intro wait_loop_timeout) simp
  show ?thesis unfolding waitForSearchResults_def t0 t1 t5 using assms by (simp add: after_loop_def)
qed



section \<open>Claim C3: the end of the wait\<close>

text \<open>
  C3 as the specification states it: the error raised after \<open>maxWait\<close> with no capture
  includes the accumulated failed-request records. The error is built from a fixed
  message alone: with one failed request recorded, the error is the same as with none,
  and its message contains neither the URL nor the error text of the record; the
  record is written to the console before the error is raised.
\<close>

theorem C3_error_without_records_counterexample:
  "wait_result (waitForSearchResults example_host no_page_events failed_session 5000)
     = Inl (Error
         ''No flight data intercepted within timeout period. Check for network errors or anti-bot detection.'')
   \<and> wait_result (waitForSearchResults example_host no_page_events example_session 5000)
     = Inl (Error
         ''No flight data intercepted within timeout period. Check for network errors or anti-bot detection.'')
   \<and> console (waitForSearchResults example_host no_page_events failed_session 5000)
     = [Waiting, FailedDetected 1,
        FailedLine ''https://www.united.com/api/flight/FetchFlights'' ''net::ERR_HTTP2_PROTOCOL_ERROR'']
   \<and> \<not> js_includes
         ''No flight data intercepted within timeout period. Check for network errors or anti-bot detection.''
         ''https://www.united.com/api/flight/FetchFlights''
   \<and> \<not> js_includes
         ''No flight data intercepted within timeout period. Check for network errors or anti-bot detection.''
         ''net::ERR_HTTP2_PROTOCOL_ERROR''"
proof -
  have ideal: "\<forall>t. waitFor_error no_page_events t = None" by (simp add: no_page_events_def)
  have empty: "interceptedData (engine failed_session) = []" "interceptedData (engine example_session) = []"
    by (simp_all add: failed_session_def example_session_def setupInterception_def example_searcher_def)
  have r1: "wait_result (waitForSearchResults example_host no_page_events failed_session 5000)
     = Inl (Error no_data_message)"
    unfolding waitForSearchResults_def
    using wait_loop_result [OF ideal, of example_host failed_session 5000 0 0 0 "[Waiting]"]
    by (simp add: count_at_no_events empty)
  have r2: "wait_result (waitForSearchResults example_host no_page_events example_session 5000)
     = Inl (Error no_data_message)"
    unfolding waitForSearchResults_def
    using wait_loop_result [OF ideal, of example_host example_session 5000 0 0 0 "[Waiting]"]
    by (simp add: count_at_no_events empty)
  have c: "console (waitForSearchResults example_host no_page_events failed_session 5000)
     = [Waiting, FailedDetected 1,
        FailedLine ''https://www.united.com/api/flight/FetchFlights'' ''net::ERR_HTTP2_PROTOCOL_ERROR'']"
    unfolding waitForSearchResults_def
    using wait_loop_quiet [OF ideal, of example_host failed_session 0 5000 0 0 "[Waiting]"]
    by (simp add: count_at_no_events empty session_at_no_events failed_lines_def failed_session_def
        example_failure_def)
  have m: "\<not> js_includes no_data_message ''https://www.united.com/api/flight/FetchFlights''"
    "\<not> js_includes no_data_message ''net::ERR_HTTP2_PROTOCOL_ERROR''"
    by (simp_all add: no_data_message_def)
  show ?thesis using r1 r2 c m by (simp add: no_data_message_def)
qed

text \<open>
  C3 amended: provided no \<open>waitFor\<close> call of the wait is rejected (ideal timers): if
  the wait reaches its \<open>maxWait\<close> budget with zero captures in the list, it raises an
  error that carries the fixed no-data message only; the accumulated failed-request
  records are not part of it: when there are any, a line with their number followed by
  one line with the URL and the error of each record are the last lines written to the
  console before the raise. If at least one capture is in the list when \<open>maxWait\<close> has
  elapsed, the wait returns without raising, also when growth never stabilized.
\<close>

theorem C3_wait_outcome:
  assumes "\<forall>t. waitFor_error env t = None"
  shows "(maxWait \<le> wait_end (waitForSearchResults h env s0 maxWait)
          \<and> count_at h env s0 (wait_end (waitForSearchResults h env s0 maxWait)) = 0 \<longrightarrow>
            wait_result (waitForSearchResults h env s0 maxWait) = Inl (Error
         ''No flight data intercepted within timeout period. Check for network errors or anti-bot detection.'')
            \<and> (\<forall>reqs. failedRequests (engine (session_at h env s0
                           (wait_end (waitForSearchResults h env s0 maxWait)))) = Some reqs
                        \<and> reqs \<noteq> [] \<longrightarrow>
                   suffix (FailedDetected (length reqs)
                             # map (\<lambda>req. FailedLine (failed_url req) (failed_error req)) reqs)
                     (console (waitForSearchResults h env s0 maxWait))))
         \<and> (maxWait \<le> wait_end (waitForSearchResults h env s0 maxWait)
          \<and> count_at h env s0 (wait_end (waitForSearchResults h env s0 maxWait)) \<noteq> 0 \<longrightarrow>
            wait_result (waitForSearchResults h env s0 maxWait) = Inr ())"
proof -
  let ?w = "waitForSearchResults h env s0 maxWait"
  have res: "wait_result ?w =
      (if count_at h env s0 (wait_end ?w) = 0 then Inl (Error no_data_message) else Inr ())"
    unfolding waitForSearchResults_def by (rule wait_loop_result [OF assms])
  have lines: "suffix (FailedDetected (length reqs)
                   # map (\<lambda>req. FailedLine (failed_url req) (failed_error req)) reqs) (console ?w)"
    if zero: "count_at h env s0 (wait_end ?w) = 0"
      and reqs: "failedRequests (engine (session_at h env s0 (wait_end ?w))) = Some reqs" "reqs \<noteq> []"
    for reqs
  proof -
    have "suffix (failed_lines (engine (session_at h env s0 (wait_end ?w)))) (console ?w)"
      using wait_loop_raises_late [OF assms, of h s0 maxWait 0 0 0 "[Waiting]"] zero
      unfolding waitForSearchResults_def by simp
    then show ?thesis using reqs by (simp add: failed_lines_def)
  qed
  show ?thesis using res lines by (simp add: no_data_message_def)
qed

theorem C3_wait_outcome_witness:
  "(\<forall>t. waitFor_error no_page_events t = None)
   \<and> 5000 \<le> wait_end (waitForSearchResults example_host no_page_events failed_session 5000)
   \<and> count_at example_host no_page_events failed_session
      (wait_end (waitForSearchResults example_host no_page_events failed_session 5000)) = 0
   \<and> failedRequests (engine (session_at example_host no_page_events failed_session
        (wait_end (waitForSearchResults example_host no_page_events failed_session 5000))))
      = Some [example_failure]
   \<and> wait_result (waitForSearchResults example_host no_page_events failed_session 5000)
       = Inl (Error
         ''No flight data intercepted within timeout period. Check for network errors or anti-bot detection.'')
   \<and> suffix [FailedDetected 1,
              FailedLine ''https://www.united.com/api/flight/FetchFlights'' ''net::ERR_HTTP2_PROTOCOL_ERROR'']
        (console (waitForSearchResults example_host no_page_events failed_session 5000))
   \<and> (\<forall>t. waitFor_error two_arrivals t = None)
   \<and> wait_end (waitForSearchResults example_host two_arrivals example_session 3000) = 5000
   \<and> count_at example_host two_arrivals example_session
      (wait_end (waitForSearchResults example_host two_arrivals example_session 3000)) \<noteq> 0
   \<and> wait_result (waitForSearchResults example_host two_arrivals example_session 3000) = Inr ()"
proof -
  let ?w1 = "waitForSearchResults example_host no_page_events failed_session 5000"
  let ?w2 = "waitForSearchResults example_host two_arrivals example_session 3000"
  have ideal1: "\<forall>t. waitFor_error no_page_events t = None" by (simp add: no_page_events_def)
  have ideal2: "\<forall>t. waitFor_error two_arrivals t = None" by (simp add: two_arrivals_def)
  have empty: "interceptedData (engine failed_session) = []"
    by (simp add: failed_session_def example_session_def setupInterception_def example_searcher_def)
  have zero: "count_at example_host no_page_events failed_session (wait_end ?w1) = 0"
    by (simp add: count_at_no_events empty)
  have late: "5000 \<le> wait_end ?w1"
    using wait_loop_raises_late [OF ideal1, of example_host failed_session 5000 0 0 0 "[Waiting]"] zero
    unfolding waitForSearchResults_def by simp
  have reqs: "failedRequests (engine (session_at example_host no_page_events failed_session (wait_end ?w1)))
      = Some [example_failure]"
    by (simp add: session_at_no_events failed_session_def)
  have e: "wait_end ?w2 = 5000"
    using wait_timeout_between_windows [OF two_arrivals_counts(1-4) _ _ ideal2, of 3000] by simp
  have some: "count_at example_host two_arrivals example_session (wait_end ?w2) \<noteq> 0"
    unfolding e using two_arrivals_counts(4) by simp
  have r1: "wait_result ?w1 = Inl (Error
         ''No flight data intercepted within timeout period. Check for network errors or anti-bot detection.'')"
    and lines: "suffix (FailedDetected (length [example_failure])
                 # map (\<lambda>req. FailedLine (failed_url req) (failed_error req)) [example_failure])
              (console ?w1)"
    using C3_wait_outcome [OF ideal1, of 5000 example_host failed_session] late zero reqs by blast+
  have r2: "wait_result ?w2 = Inr ()"
    using C3_wait_outcome [OF ideal2, of 3000 example_host example_session] e some by simp
  have lines': "suffix [FailedDetected 1,
              FailedLine ''https://www.united.com/api/flight/FetchFlights'' ''net::ERR_HTTP2_PROTOCOL_ERROR'']
        (console ?w1)"
    using lines by (simp add: example_failure_def)
  show ?thesis
    using ideal1 ideal2 late zero reqs r1 lines' e some r2 by blast
qed

section \<open>Claim C5: when completion is declared\<close>

text \<open>
  C5 as the specification states it: with captures at 1 s and 2 s, completion is
  declared at about 5 s. The detector notices the first capture at the 1 s tick and
  waits until 4 s, where the count has changed; the next tick, at 5 s, notices the
  second capture and opens a new window: completion is declared at 8 s. When each
  capture is handled just after the tick (1001 ms and 2001 ms) it is declared at 9 s.
\<close>

theorem C5_completion_time_counterexample:
  "wait_end (waitForSearchResults example_host two_arrivals example_session 60000) = 8000
   \<and> wait_end (waitForSearchResults example_host two_arrivals_late example_session 60000) = 9000"
proof -
  have ideal: "\<forall>t. waitFor_error two_arrivals t = None" "\<forall>t. waitFor_error two_arrivals_late t = None"
    by (simp_all add: two_arrivals_def two_arrivals_late_def)
  show ?thesis
    using wait_two_windows [OF two_arrivals_counts _ ideal(1), of 60000]
      wait_two_windows_late [OF two_arrivals_late_counts _ ideal(2), of 60000]
    by simp
qed

text \<open>
  C5 amended: with ideal timers (no \<open>waitFor\<close> call is rejected and each returns after
  exactly its delay), if the tick at 1 s sees one capture and the reads at 4 s, 5 s and
  8 s see two (captures at 1 s and 2 s and none later), completion is declared at 8 s:
  3 s after the tick at 5 s, the first tick that reads the final count; the console
  shows both growth notices before the completion line.
\<close>

theorem C5_completion_after_second_window:
  assumes "count_at h env s0 0 = 0" and "count_at h env s0 1000 = 1"
    and "count_at h env s0 4000 = 2" and "count_at h env s0 5000 = 2"
    and "count_at h env s0 8000 = 2" and "5000 < maxWait"
    and "\<forall>t. waitFor_error env t = None"
  shows "waitForSearchResults h env s0 maxWait =
           \<lparr> wait_result = Inr (), wait_end = 8000,
             console = [Waiting, Received 1, Received 2, Completed] \<rparr>"
  using assms by (rule wait_two_windows)

theorem C5_completion_after_second_window_witness:
  "count_at example_host two_arrivals example_session 0 = 0
   \<and> count_at example_host two_arrivals example_session 1000 = 1
   \<and> count_at example_host two_arrivals example_session 4000 = 2
   \<and> count_at example_host two_arrivals example_session 5000 = 2
   \<and> count_at example_host two_arrivals example_session 8000 = 2
   \<and> (5000 :: nat) < 60000
   \<and> (\<forall>t. waitFor_error two_arrivals t = None)
   \<and> waitForSearchResults example_host two_arrivals example_session 60000 =
        \<lparr> wait_result = Inr (), wait_end = 8000,
          console = [Waiting, Received 1, Received 2, Completed] \<rparr>"
proof -
  have ideal: "\<forall>t. waitFor_error two_arrivals t = None" by (simp add: two_arrivals_def)
  show ?thesis
    using C5_completion_after_second_window [OF two_arrivals_counts _ ideal, of 60000]
      two_arrivals_counts ideal
    by simp
qed

section \<open>Claim C8: the browser session is released\<close>

lemma js_string_of_nat_3: "js_string_of_nat 3 = ''3''"
  by code_simp

lemma browser_open_closed_last: "browser_open (tr @ [BrowserClosed]) b = False"
  by (induction tr b rule: browser_open.induct) simp_all

lemma finally_close_trace:
  "snd (snd (finally_close env out)) = snd (snd out) @ [BrowserClosed]"
  by (cases out) (simp add: finally_close_def)

lemma searchByURL_trace:
  "snd (snd (searchByURL h env s url opts)) =
     (if launch_error env = None
      then BrowserLaunched # snd (snd (searchByURL_try h env s url opts)) @ [BrowserClosed]
      else [])"
  using finally_close_trace [of env "searchByURL_try h env s url opts"]
  by (auto simp: searchByURL_def split: option.splits prod.splits)

text \<open>
  C8: whatever the stages of \<open>searchByURL\<close> do (a result, or an error raised by any
  stage, the close itself included), no browser session is open when the call ends:
  when the launch succeeded, the first effect is the launch and the last one the
  close; when the launch raised, no session was acquired and nothing was done. No
  session is open after \<open>searchByFormInteraction\<close> either, and its \<open>try\<close> block ends
  with the close on every path.
\<close>

theorem C8_browser_released:
  "\<not> browser_open (snd (snd (searchByURL h env s url opts))) False
   \<and> (launch_error env = None \<longrightarrow>
        hd (snd (snd (searchByURL h env s url opts))) = BrowserLaunched
        \<and> last (snd (snd (searchByURL h env s url opts))) = BrowserClosed)
   \<and> (launch_error env \<noteq> None \<longrightarrow> snd (snd (searchByURL h env s url opts)) = [])
   \<and> \<not> browser_open (snd (snd (searchByFormInteraction h env s params opts))) False
   \<and> last (snd (snd (finally_close env (searchByFormInteraction_try h env s opts)))) = BrowserClosed"
proof -
  have form: "snd (snd (searchByFormInteraction h env s params opts)) = []"
    by (simp add: searchByFormInteraction_def resolve_def function_bindings_def
        module_bindings_def global_bindings_def)
  have open_url: "\<not> browser_open (snd (snd (searchByURL h env s url opts))) False"
    unfolding searchByURL_trace
    using browser_open_closed_last [of "snd (snd (searchByURL_try h env s url opts))" True]
    by simp
  show ?thesis
    using open_url form finally_close_trace [of env "searchByFormInteraction_try h env s opts"]
    by (simp add: searchByURL_trace)
qed

theorem C8_browser_released_witness:
  "launch_error (example_browser None (\<lambda>k. Throws ''net::ERR_HTTP2_PROTOCOL_ERROR'')) = None
   \<and> fst (searchByURL example_host (example_browser None (\<lambda>k. Throws ''net::ERR_HTTP2_PROTOCOL_ERROR''))
             (example_searcher []) ''https://www.united.com/en/us/fsr/choose-flights'' example_options)
       = Inl (Error ''Failed to navigate after 3 attempts: net::ERR_HTTP2_PROTOCOL_ERROR'')
   \<and> last (snd (snd (searchByURL example_host (example_browser None (\<lambda>k. Throws ''net::ERR_HTTP2_PROTOCOL_ERROR''))
             (example_searcher []) ''https://www.united.com/en/us/fsr/choose-flights'' example_options)))
       = BrowserClosed
   \<and> launch_error (example_browser (Some (Error ''Failed to launch the browser process''))
                      (\<lambda>k. Title ''United'')) \<noteq> None
   \<and> searchByURL example_host (example_browser (Some (Error ''Failed to launch the browser process''))
                      (\<lambda>k. Title ''United''))
         (example_searcher []) ''https://www.united.com/en/us/fsr/choose-flights'' example_options
       = (Inl (Error ''Failed to launch the browser process''),
          \<lparr>engine = example_searcher [], awaiting = []\<rparr>, [])"
proof -
  let ?envA = "example_browser None (\<lambda>k. Throws ''net::ERR_HTTP2_PROTOCOL_ERROR'')"
  let ?envB = "example_browser (Some (Error ''Failed to launch the browser process'')) (\<lambda>k. Title ''United'')"
  let ?url = "''https://www.united.com/en/us/fsr/choose-flights''"
  have a: "launch_error ?envA = None" by (simp add: example_browser_def)
  have b: "launch_error ?envB \<noteq> None" by (simp add: example_browser_def)
  have r: "fst (searchByURL example_host ?envA (example_searcher []) ?url example_options)
       = Inl (Error ''Failed to navigate after 3 attempts: net::ERR_HTTP2_PROTOCOL_ERROR'')"
    by (simp add: searchByURL_def searchByURL_try_def open_page_def finally_close_def
        example_browser_def navigateWithRetry_def nav_loop.simps Let_def js_string_of_nat_3)
  have rb: "searchByURL example_host ?envB (example_searcher []) ?url example_options
       = (Inl (Error ''Failed to launch the browser process''),
          \<lparr>engine = example_searcher [], awaiting = []\<rparr>, [])"
    by (simp add: searchByURL_def example_browser_def)
  show ?thesis
    using C8_browser_released [of example_host ?envA "example_searcher []" ?url example_options example_params]
      C8_browser_released [of example_host ?envB "example_searcher []" ?url example_options example_params]
      a b r rb
    by simp
qed

section \<open>Claim C9: where the trip list is found\<close>

lemma extract_flights_located:
  assumes "is_object d" and "locate_trips d = JArr L"
  shows "flights (extractFlightInfo h d) = snd (trips_loop h L [])"
proof -
  have t: "truthy d" using assms(1) by (cases d) simp_all
  show ?thesis
    using assms t
    by (cases "trips_loop h L []"; cases "fst (trips_loop h L [])")
       (simp_all add: extractFlightInfo_def)
qed

lemma locate_top_level:
  "js_get (JObj kvs) ''Trips'' = JArr L \<Longrightarrow> locate_trips (JObj kvs) = JArr L"
  by (simp add: locate_trips_def)

lemma locate_nested:
  assumes "\<not> isArray (js_get (JObj kvs) ''Trips'')"
    and "js_get (js_get (JObj kvs) ''data'') ''Trips'' = JArr L"
  shows "locate_trips (JObj kvs) = JArr L"
proof -
  have "truthy (js_get (JObj kvs) ''data'')"
    using assms(2) by (cases "js_get (JObj kvs) ''data''") simp_all
  then show ?thesis using assms unfolding locate_trips_def by simp
qed

lemma locate_bare: "locate_trips (JArr L) = JArr L"
  by (simp add: locate_trips_def)

lemma trips_loop_all_converted:
  assumes "\<forall>t \<in> set L. truthy t \<longrightarrow> (\<exists>info. flight_of_trip h t = Inr info)"
  shows "fst (trips_loop h L acc) = None
         \<and> length (snd (trips_loop h L acc)) = length acc + length (filter truthy L)"
  using assms
proof (induction L arbitrary: acc)
  case Nil
  show ?case by simp
next
  case (Cons t L)
  show ?case
  proof (cases "truthy t")
    case False
    then show ?thesis using Cons by simp
  next
    case True
    then obtain info where "flight_of_trip h t = Inr info" using Cons.prems by auto
    then show ?thesis using True Cons.IH [of "acc @ [info]"] Cons.prems by simp
  qed
qed

text \<open>
  C9 as the specification states it: for every trip list the three payload shapes
  give equivalent non-empty flight lists. For the empty trip list, and for a trip
  list whose only entry is \<open>null\<close>, each shape gives the empty flight list.
\<close>

theorem C9_empty_trip_list_counterexample:
  "flights (extractFlightInfo example_host (JObj [(''Trips'', JArr [])])) = []
   \<and> flights (extractFlightInfo example_host (JObj [(''data'', JObj [(''Trips'', JArr [])])])) = []
   \<and> flights (extractFlightInfo example_host (JArr [])) = []
   \<and> flights (extractFlightInfo example_host (JObj [(''Trips'', JArr [JNull])])) = []"
  by (simp add: extractFlightInfo_def locate_trips_def)

text \<open>
  C9 amended: for every trip list \<open>L\<close>, a payload with \<open>L\<close> as its top-level \<open>Trips\<close>
  array (whatever else it holds, a nested \<open>data.Trips\<close> included), a payload whose
  top-level \<open>Trips\<close> is not an array and whose \<open>data.Trips\<close> is \<open>L\<close>, and the bare array
  \<open>L\<close> give the same flight list: the one the loop over \<open>L\<close> builds. The locations are
  tried in that order. The list has one flight for each truthy entry of \<open>L\<close> when no
  entry's conversion raises, so it is non-empty exactly when \<open>L\<close> then has a truthy
  entry.
\<close>

theorem C9_trip_list_locations:
  "(js_get (JObj kvs) ''Trips'' = JArr L \<longrightarrow>
      flights (extractFlightInfo h (JObj kvs)) = flights (extractFlightInfo h (JArr L)))
   \<and> (\<not> isArray (js_get (JObj kvs) ''Trips'') \<and> js_get (js_get (JObj kvs) ''data'') ''Trips'' = JArr L \<longrightarrow>
      flights (extractFlightInfo h (JObj kvs)) = flights (extractFlightInfo h (JArr L)))
   \<and> flights (extractFlightInfo h (JArr L)) = snd (trips_loop h L [])
   \<and> ((\<forall>t \<in> set L. truthy t \<longrightarrow> (\<exists>info. flight_of_trip h t = Inr info)) \<longrightarrow>
      length (flights (extractFlightInfo h (JArr L))) = length (filter truthy L))"
proof -
  have bare: "flights (extractFlightInfo h (JArr L)) = snd (trips_loop h L [])"
    using extract_flights_located [of "JArr L" L h] locate_bare by simp
  have top: "js_get (JObj kvs) ''Trips'' = JArr L \<Longrightarrow>
      flights (extractFlightInfo h (JObj kvs)) = snd (trips_loop h L [])"
    using extract_flights_located [of "JObj kvs" L h] locate_top_level [of kvs L] by simp
  have nested: "\<not> isArray (js_get (JObj kvs) ''Trips'') \<Longrightarrow>
      js_get (js_get (JObj kvs) ''data'') ''Trips'' = JArr L \<Longrightarrow>
      flights (extractFlightInfo h (JObj kvs)) = snd (trips_loop h L [])"
    using extract_flights_located [of "JObj kvs" L h] locate_nested [of kvs L] by simp
  have len: "\<forall>t \<in> set L. truthy t \<longrightarrow> (\<exists>info. flight_of_trip h t = Inr info) \<Longrightarrow>
      length (snd (trips_loop h L [])) = length (filter truthy L)"
    using trips_loop_all_converted [of L h "[]"] by simp
  show ?thesis using bare top nested len by metis
qed

theorem C9_trip_list_locations_witness:
  "js_get (JObj [(''Trips'', JArr example_trips), (''data'', JObj [(''Trips'', JArr [])])]) ''Trips''
     = JArr example_trips
   \<and> \<not> isArray (js_get (JObj [(''Trips'', JStr ''none''), (''data'', JObj [(''Trips'', JArr example_trips)])]) ''Trips'')
   \<and> js_get (js_get (JObj [(''Trips'', JStr ''none''), (''data'', JObj [(''Trips'', JArr example_trips)])]) ''data'') ''Trips''
     = JArr example_trips
   \<and> filter truthy example_trips = [example_trip]
   \<and> map origin (flights (extractFlightInfo example_host (JArr example_trips))) = [JStr ''PHL'']
   \<and> map (\<lambda>info. map fare_cabinClass (fares info))
         (flights (extractFlightInfo example_host (JArr example_trips))) = [[JStr ''Economy'']]
   \<and> flights (extractFlightInfo example_host
         (JObj [(''Trips'', JArr example_trips), (''data'', JObj [(''Trips'', JArr [])])]))
     = flights (extractFlightInfo example_host (JArr example_trips))
   \<and> flights (extractFlightInfo example_host
         (JObj [(''Trips'', JStr ''none''), (''data'', JObj [(''Trips'', JArr example_trips)])]))
     = flights (extractFlightInfo example_host (JArr example_trips))
   \<and> length (flights (extractFlightInfo example_host (JArr example_trips))) = 1"
proof -
  let ?top = "[(''Trips'', JArr example_trips), (''data'', JObj [(''Trips'', JArr [])])]"
  let ?nested = "[(''Trips'', JStr ''none''), (''data'', JObj [(''Trips'', JArr example_trips)])]"
  have conv: "flight_of_trip example_host example_trip =
      Inr \<lparr> tripIndex = JNum (Finite 1), origin = JStr ''PHL'', destination = JStr ''LGA'',
            originDecoded = JUndefined, destinationDecoded = JUndefined,
            departDate = JStr ''2025-08-15'', departTime = JUndefined,
            fares = [\<lparr> fare_type = JStr ''ECONOMY'', fare_description = JUndefined,
                       fare_fareFamily = JUndefined, fare_isRefundable = JBool False,
                       fare_cabinClass = JStr ''Economy'', fare_fareContent = JUndefined,
                       fare_marketingText = JUndefined \<rparr>],
            pricing = [], aircraft = [], searchFilters = None \<rparr>"
    by (simp add: example_trip_def flight_of_trip_def trip_fares_def trip_pricing_def
        trip_aircraft_def fare_of_column_def read_prop_def optional_trim_def js_or_def
        js_trim_def js_whitespace_def)
  have tr: "filter truthy example_trips = [example_trip]"
    by (simp add: example_trips_def example_trip_def)
  have all: "\<forall>t \<in> set example_trips. truthy t \<longrightarrow> (\<exists>info. flight_of_trip example_host t = Inr info)"
    using conv by (simp add: example_trips_def)
  have tt: "truthy example_trip" by (simp add: example_trip_def)
  have h1: "js_get (JObj ?top) ''Trips'' = JArr example_trips" by simp
  have h2: "\<not> isArray (js_get (JObj ?nested) ''Trips'')" by simp
  have h3: "js_get (js_get (JObj ?nested) ''data'') ''Trips'' = JArr example_trips" by simp
  from C9_trip_list_locations [of ?top example_trips example_host] h1 all
  have top: "flights (extractFlightInfo example_host (JObj ?top))
               = flights (extractFlightInfo example_host (JArr example_trips))"
    and bare: "flights (extractFlightInfo example_host (JArr example_trips))
               = snd (trips_loop example_host example_trips [])"
    and len: "length (flights (extractFlightInfo example_host (JArr example_trips)))
               = length (filter truthy example_trips)"
    by blast+
  from C9_trip_list_locations [of ?nested example_trips example_host] h2 h3
  have nested: "flights (extractFlightInfo example_host (JObj ?nested))
               = flights (extractFlightInfo example_host (JArr example_trips))"
    by blast
  have loop: "snd (trips_loop example_host example_trips []) =
      [\<lparr> tripIndex = JNum (Finite 1), origin = JStr ''PHL'', destination = JStr ''LGA'',
            originDecoded = JUndefined, destinationDecoded = JUndefined,
            departDate = JStr ''2025-08-15'', departTime = JUndefined,
            fares = [\<lparr> fare_type = JStr ''ECONOMY'', fare_description = JUndefined,
                       fare_fareFamily = JUndefined, fare_isRefundable = JBool False,
                       fare_cabinClass = JStr ''Economy'', fare_fareContent = JUndefined,
                       fare_marketingText = JUndefined \<rparr>],
            pricing = [], aircraft = [], searchFilters = None \<rparr>]"
    using tt conv by (simp add: example_trips_def)
  have one: "length (flights (extractFlightInfo example_host (JArr example_trips))) = 1"
    using len tr by simp
  have o: "map origin (flights (extractFlightInfo example_host (JArr example_trips))) = [JStr ''PHL'']"
    unfolding bare loop by simp
  have f: "map (\<lambda>info. map fare_cabinClass (fares info))
         (flights (extractFlightInfo example_host (JArr example_trips))) = [[JStr ''Economy'']]"
    unfolding bare loop by simp
  show ?thesis
    using h1 h2 h3 tr top nested one o f by blast
qed

end
